theory Spec2Isabelle
  imports Complex_Main "HOL-Library.Word"
begin

unbundle bit_operations_syntax

section \<open>Python values and exceptions\<close>

text \<open>
  The module \<^verbatim>\<open>benchy/benchmark.py\<close> is Python 2. Integers are unbounded (\<open>int\<close>),
  \<open>str\<close> is a byte string (\<open>string\<close>), and the times a timer returns are floats, modelled
  as \<open>real\<close>: comparison and minimum are then exact, and the rounding of the one division
  and the one multiplication is left out. The logarithm is not modelled by the real one:
  \<^verbatim>\<open>math.log10\<close> returns a rounded double, and which unit is chosen next to a power of ten
  depends on that rounding, so the function is a parameter of the model.

  Every \<^verbatim>\<open>raise\<close> is a value: a function that can raise returns \<open>exn + 'a\<close>, with
  \<open>Inl\<close> the exception. \<open>Raised\<close> stands for whatever executing a text raises
  (a \<^verbatim>\<open>SyntaxError\<close> when the text does not compile included).
\<close>

datatype exn = ZeroDivisionError | ValueError | IndexError | Raised string

section \<open>The class Benchmark\<close>

record Benchmark =
  code :: string
  setup_text :: string
  cleanup :: string
  ncalls :: "int option"
  repeat :: int
  name :: "string option"
  description :: "string option"
  start_date :: "string option"
  logy :: bool
  db_path :: "string option"

text \<open>
  A value a namespace or a result dictionary can hold. \<open>PySuite\<close> is a
  \<^verbatim>\<open>BenchmarkSuite\<close>, a list of arbitrary values.
\<close>

datatype pyval =
    PyNone
  | PyBool bool
  | PyInt int
  | PyFloat real
  | PyStr string
  | PyBenchmark Benchmark
  | PySuite "pyval list"

text \<open>
  \<^verbatim>\<open>__init__(self, code, setup, ncalls=None, repeat=3, cleanup=None, name=None,
  description=None, start_date=None, logy=False, db_path=None)\<close>. A keyword argument
  that is left out is \<open>None\<close> here, and takes the default of the signature;
  \<^verbatim>\<open>self.cleanup = cleanup or ''\<close> turns a missing cleanup into the empty text.
\<close>

definition Benchmark_init ::
  "string \<Rightarrow> string \<Rightarrow> int option \<Rightarrow> int option \<Rightarrow> string option \<Rightarrow> string option \<Rightarrow>
   string option \<Rightarrow> string option \<Rightarrow> bool option \<Rightarrow> string option \<Rightarrow> Benchmark" where
  "Benchmark_init code0 setup0 ncalls0 repeat0 cleanup0 name0 description0 start_date0 logy0 db_path0 =
     \<lparr> code = code0,
       setup_text = setup0,
       cleanup = (case cleanup0 of None \<Rightarrow> [] | Some c \<Rightarrow> c),
       ncalls = ncalls0,
       repeat = (case repeat0 of None \<Rightarrow> 3 | Some r \<Rightarrow> r),
       name = name0,
       description = description0,
       start_date = start_date0,
       logy = (case logy0 of None \<Rightarrow> False | Some l \<Rightarrow> l),
       db_path = db_path0 \<rparr>"

section \<open>hashlib.md5\<close>

text \<open>
  \<^verbatim>\<open>hashlib.md5(s).hexdigest()\<close> is the MD5 digest of RFC 1321 over the bytes of
  \<open>s\<close>, as 32 lower-case hexadecimal digits.
\<close>

definition md5_s :: "nat list" where
  "md5_s = [7, 12, 17, 22, 7, 12, 17, 22, 7, 12, 17, 22, 7, 12, 17, 22,
            5, 9, 14, 20, 5, 9, 14, 20, 5, 9, 14, 20, 5, 9, 14, 20,
            4, 11, 16, 23, 4, 11, 16, 23, 4, 11, 16, 23, 4, 11, 16, 23,
            6, 10, 15, 21, 6, 10, 15, 21, 6, 10, 15, 21, 6, 10, 15, 21]"

definition md5_K :: "32 word list" where
  "md5_K = [0xd76aa478, 0xe8c7b756, 0x242070db, 0xc1bdceee,
            0xf57c0faf, 0x4787c62a, 0xa8304613, 0xfd469501,
            0x698098d8, 0x8b44f7af, 0xffff5bb1, 0x895cd7be,
            0x6b901122, 0xfd987193, 0xa679438e, 0x49b40821,
            0xf61e2562, 0xc040b340, 0x265e5a51, 0xe9b6c7aa,
            0xd62f105d, 0x02441453, 0xd8a1e681, 0xe7d3fbc8,
            0x21e1cde6, 0xc33707d6, 0xf4d50d87, 0x455a14ed,
            0xa9e3e905, 0xfcefa3f8, 0x676f02d9, 0x8d2a4c8a,
            0xfffa3942, 0x8771f681, 0x6d9d6122, 0xfde5380c,
            0xa4beea44, 0x4bdecfa9, 0xf6bb4b60, 0xbebfbc70,
            0x289b7ec6, 0xeaa127fa, 0xd4ef3085, 0x04881d05,
            0xd9d4d039, 0xe6db99e5, 0x1fa27cf8, 0xc4ac5665,
            0xf4292244, 0x432aff97, 0xab9423a7, 0xfc93a039,
            0x655b59c3, 0x8f0ccc92, 0xffeff47d, 0x85845dd1,
            0x6fa87e4f, 0xfe2ce6e0, 0xa3014314, 0x4e0811a1,
            0xf7537e82, 0xbd3af235, 0x2ad7d2bb, 0xeb86d391]"

type_synonym md5_state = "32 word \<times> 32 word \<times> 32 word \<times> 32 word"

definition md5_init :: md5_state where
  "md5_init = (0x67452301, 0xefcdab89, 0x98badcfe, 0x10325476)"

definition md5_step :: "32 word list \<Rightarrow> nat \<Rightarrow> md5_state \<Rightarrow> md5_state" where
  "md5_step M i st =
     (case st of (a, b, c, d) \<Rightarrow>
        let (f, g) =
              (if i < 16 then ((b AND c) OR (NOT b AND d), i)
               else if i < 32 then ((d AND b) OR (NOT d AND c), (5 * i + 1) mod 16)
               else if i < 48 then (b XOR c XOR d, (3 * i + 5) mod 16)
               else (c XOR (b OR NOT d), (7 * i) mod 16));
            f2 = f + a + md5_K ! i + M ! g
        in (d, b + word_rotl (md5_s ! i) f2, b, c))"

fun le_word32 :: "8 word list \<Rightarrow> 32 word" where
  "le_word32 [] = 0"
| "le_word32 (x # xs) = ucast x OR push_bit 8 (le_word32 xs)"

fun chunks :: "nat \<Rightarrow> nat \<Rightarrow> 'a list \<Rightarrow> 'a list list" where
  "chunks 0 n xs = []"
| "chunks (Suc k) n xs = take n xs # chunks k n (drop n xs)"

definition md5_block :: "md5_state \<Rightarrow> 8 word list \<Rightarrow> md5_state" where
  "md5_block st blk =
     (case st of (a0, b0, c0, d0) \<Rightarrow>
        (case fold (md5_step (map le_word32 (chunks 16 4 blk))) [0..<64] st of
           (a, b, c, d) \<Rightarrow> (a0 + a, b0 + b, c0 + c, d0 + d)))"

definition le_bytes64 :: "64 word \<Rightarrow> 8 word list" where
  "le_bytes64 w = map (\<lambda>i. ucast (drop_bit (8 * i) w)) [0..<8]"

definition md5_pad :: "8 word list \<Rightarrow> 8 word list" where
  "md5_pad msg =
     msg @ [0x80] @ replicate ((119 - length msg mod 64) mod 64) 0
         @ le_bytes64 (8 * of_nat (length msg))"

definition hex_digit :: "nat \<Rightarrow> char" where
  "hex_digit n = ''0123456789abcdef'' ! n"

definition hex_byte :: "8 word \<Rightarrow> string" where
  "hex_byte b = [hex_digit (unat b div 16), hex_digit (unat b mod 16)]"

definition word32_bytes :: "32 word \<Rightarrow> 8 word list" where
  "word32_bytes w = map (\<lambda>i. ucast (drop_bit (8 * i) w)) [0..<4]"

definition md5_digest :: "8 word list \<Rightarrow> 8 word list" where
  "md5_digest msg =
     (let p = md5_pad msg
      in case fold (\<lambda>blk st. md5_block st blk) (chunks (length p div 64) 64 p) md5_init of
           (a, b, c, d) \<Rightarrow> concat (map word32_bytes [a, b, c, d]))"

definition md5_hexdigest :: "string \<Rightarrow> string" where
  "md5_hexdigest s = concat (map hex_byte (md5_digest (map of_char s)))"

section \<open>Benchmark.checksum\<close>

definition Benchmark_checksum :: "Benchmark \<Rightarrow> string" where
  "Benchmark_checksum b = md5_hexdigest (setup_text b @ code b @ cleanup b)"

section \<open>Executing text: the interpreter and the world\<close>

text \<open>
  The setup, code and cleanup of a benchmark are opaque Python text, and the timer reads a
  wall clock. What executing a text does is a parameter of the model, an \<open>interp\<close>:
  \<^item> \<open>'ns\<close> is the evaluation namespace together with everything else the executed text
    can read or change, the clock included;
  \<^item> \<open>globals_copy\<close> is \<^verbatim>\<open>globals().copy()\<close>;
  \<^item> \<open>exec_in txt ns\<close> is \<^verbatim>\<open>exec txt in ns\<close>: it changes \<open>ns\<close> in place, also when it raises;
  \<^item> \<open>compile_inner stmt ns\<close> is lines 225 to 232 of \<^verbatim>\<open>magic_timeit\<close>: the statement
    is put into the template of \<^verbatim>\<open>timeit\<close>, compiled, and executed in \<open>ns\<close> to define the
    function \<^verbatim>\<open>inner\<close> that the timer then calls;
  \<^item> \<open>timeit_inner stmt number ns\<close> is \<^verbatim>\<open>timer.timeit(number)\<close>: the statement runs
    \<open>number\<close> times in \<open>ns\<close>, and the elapsed time is returned, or the statement raises;
  \<^item> \<open>format_exception e\<close> is what \<^verbatim>\<open>traceback\<close> prints for \<open>e\<close> below its header line;
  \<^item> \<open>math_log10 x\<close> is the double that \<^verbatim>\<open>math.log10(x)\<close> returns for a positive \<open>x\<close>.

  The world is the namespace and a log. Every function of the module that executes a text
  appends one event to the log, so that which texts ran, how often and in which order can
  be stated.
\<close>

record 'ns interp =
  globals_copy :: "'ns \<Rightarrow> 'ns"
  exec_in :: "string \<Rightarrow> 'ns \<Rightarrow> exn option \<times> 'ns"
  compile_inner :: "string \<Rightarrow> 'ns \<Rightarrow> exn option \<times> 'ns"
  timeit_inner :: "string \<Rightarrow> int \<Rightarrow> 'ns \<Rightarrow> (exn + real) \<times> 'ns"
  format_exception :: "exn \<Rightarrow> string"
  math_log10 :: "real \<Rightarrow> real"

datatype event =
    SetupExec "exn option"
  | InnerCompiled "exn option"
  | Timeit int "exn + real"
  | CleanupExec "exn option"

record 'ns world =
  env :: 'ns
  trace :: "event list"

type_synonym result = "string \<rightharpoonup> pyval"

subsection \<open>Benchmark._setup and Benchmark._cleanup\<close>

definition Benchmark_setup :: "'ns interp \<Rightarrow> Benchmark \<Rightarrow> 'ns world \<Rightarrow> exn option \<times> 'ns world" where
  "Benchmark_setup I self w =
     (case exec_in I (setup_text self) (globals_copy I (env w)) of
        (r, ns) \<Rightarrow> (r, \<lparr>env = ns, trace = trace w @ [SetupExec r]\<rparr>))"

definition Benchmark_cleanup :: "'ns interp \<Rightarrow> Benchmark \<Rightarrow> 'ns world \<Rightarrow> exn option \<times> 'ns world" where
  "Benchmark_cleanup I self w =
     (case exec_in I (cleanup self) (env w) of
        (r, ns) \<Rightarrow> (r, \<lparr>env = ns, trace = trace w @ [CleanupExec r]\<rparr>))"

section \<open>magic_timeit\<close>

text \<open>
  The library class \<^verbatim>\<open>timeit.Timer\<close>: \<^verbatim>\<open>timeit(number)\<close> is one timed trial, and
  \<^verbatim>\<open>repeat(repeat, number)\<close> is the loop
  \<^verbatim>\<open>r = []; for i in range(repeat): r.append(self.timeit(number)); return r\<close>,
  which runs \<open>nat repeat\<close> times (no time at all when \<open>repeat\<close> is below 1).
\<close>

definition Timer_compile :: "'ns interp \<Rightarrow> string \<Rightarrow> 'ns world \<Rightarrow> exn option \<times> 'ns world" where
  "Timer_compile I stmt w =
     (case compile_inner I stmt (env w) of
        (r, ns) \<Rightarrow> (r, \<lparr>env = ns, trace = trace w @ [InnerCompiled r]\<rparr>))"

definition Timer_timeit :: "'ns interp \<Rightarrow> string \<Rightarrow> int \<Rightarrow> 'ns world \<Rightarrow> (exn + real) \<times> 'ns world" where
  "Timer_timeit I stmt number w =
     (case timeit_inner I stmt number (env w) of
        (r, ns) \<Rightarrow> (r, \<lparr>env = ns, trace = trace w @ [Timeit number r]\<rparr>))"

fun repeat_loop ::
  "'ns interp \<Rightarrow> string \<Rightarrow> nat \<Rightarrow> int \<Rightarrow> real list \<Rightarrow> 'ns world \<Rightarrow> (exn + real list) \<times> 'ns world" where
  "repeat_loop I stmt 0 number r w = (Inr r, w)"
| "repeat_loop I stmt (Suc k) number r w =
     (case Timer_timeit I stmt number w of
        (Inl e, w') \<Rightarrow> (Inl e, w')
      | (Inr t, w') \<Rightarrow> repeat_loop I stmt k number (r @ [t]) w')"

definition Timer_repeat ::
  "'ns interp \<Rightarrow> string \<Rightarrow> int \<Rightarrow> int \<Rightarrow> 'ns world \<Rightarrow> (exn + real list) \<times> 'ns world" where
  "Timer_repeat I stmt repeat0 number w = repeat_loop I stmt (nat repeat0) number [] w"

text \<open>
  Lines 236 to 240: \<^verbatim>\<open>number = 1\<close>, then for each element of \<^verbatim>\<open>range(1, 10)\<close> one
  timed trial of \<open>number\<close>; the loop is left when the trial took at least 0.1, and
  \<open>number\<close> is multiplied by 10 otherwise. The list argument is what is left of the range.
\<close>

fun calibrate ::
  "'ns interp \<Rightarrow> string \<Rightarrow> int list \<Rightarrow> int \<Rightarrow> 'ns world \<Rightarrow> (exn + int) \<times> 'ns world" where
  "calibrate I stmt [] number w = (Inr number, w)"
| "calibrate I stmt (i # rest) number w =
     (case Timer_timeit I stmt number w of
        (Inl e, w') \<Rightarrow> (Inl e, w')
      | (Inr t, w') \<Rightarrow>
          if t \<ge> 1 / 10 then (Inr number, w') else calibrate I stmt rest (number * 10) w')"

definition py_range :: "int \<Rightarrow> int \<Rightarrow> int list" where
  "py_range a b = [a..b - 1]"

text \<open>\<^verbatim>\<open>min\<close> of a list raises \<^verbatim>\<open>ValueError\<close> on the empty list.\<close>

fun py_min :: "real list \<Rightarrow> exn + real" where
  "py_min [] = Inl ValueError"
| "py_min (x # xs) = Inr (fold min xs x)"

text \<open>\<^verbatim>\<open>xs[i]\<close>: a negative index counts from the end, and an index out of range raises.\<close>

definition py_getitem :: "'a list \<Rightarrow> int \<Rightarrow> exn + 'a" where
  "py_getitem xs i =
     (if 0 \<le> i \<and> i < int (length xs) then Inr (xs ! nat i)
      else if i < 0 \<and> - int (length xs) \<le> i then Inr (xs ! nat (int (length xs) + i))
      else Inl IndexError)"

definition units :: "string list" where
  "units = [''s'', ''ms'', ''us'', ''ns'']"

definition scaling :: "real list" where
  "scaling = [1, 1000, 1000000, 1000000000]"

text \<open>
  Line 244, \<^verbatim>\<open>best = min(timer.repeat(repeat, number)) / number\<close>, once the trials have
  returned their times: the minimum first, then the division, which raises on 0.
\<close>

definition best_of :: "real list \<Rightarrow> int \<Rightarrow> exn + real" where
  "best_of ts number =
     (case py_min ts of
        Inl e \<Rightarrow> Inl e
      | Inr m \<Rightarrow> if number = 0 then Inl ZeroDivisionError else Inr (m / real_of_int number))"

text \<open>
  Lines 246 to 254. In \<^verbatim>\<open>min(-int(math.floor(math.log10(best)) // 3), 3)\<close> the floor
  division by 3 is inside \<^verbatim>\<open>int(...)\<close> and the sign is taken last. The first argument
  is \<^verbatim>\<open>math.log10\<close>. Nothing keeps the order from being negative: where the logarithm
  returned is 3 or more, the order is below 0 and the lists are indexed from their end.
\<close>

definition unit_order :: "(real \<Rightarrow> real) \<Rightarrow> bool \<Rightarrow> real \<Rightarrow> int" where
  "unit_order lg10 force_ms best =
     (if force_ms then 1
      else if best > 0 \<and> best < 1000 then min (- (\<lfloor>lg10 best\<rfloor> div 3)) 3
      else if best \<ge> 1000 then 0
      else 3)"

text \<open>Lines 256 to 259: the dictionary returned.\<close>

definition timing_result ::
  "(real \<Rightarrow> real) \<Rightarrow> int \<Rightarrow> int \<Rightarrow> bool \<Rightarrow> real \<Rightarrow> exn + result" where
  "timing_result lg10 number repeat0 force_ms best =
     (let order = unit_order lg10 force_ms best
      in case py_getitem scaling order of
           Inl e \<Rightarrow> Inl e
         | Inr sc \<Rightarrow>
             (case py_getitem units order of
                Inl e \<Rightarrow> Inl e
              | Inr u \<Rightarrow>
                  Inr [''loops'' \<mapsto> PyInt number, ''repeat'' \<mapsto> PyInt repeat0,
                       ''timing'' \<mapsto> PyFloat (best * sc), ''units'' \<mapsto> PyStr u]))"

text \<open>
  \<^verbatim>\<open>magic_timeit(ns, stmt, ncalls=None, repeat=3, force_ms=False)\<close>; a keyword argument
  left out is \<open>None\<close> for \<open>repeat\<close> and \<open>force_ms\<close>, and \<open>ncalls\<close> is \<open>None\<close> by default.
\<close>

definition magic_timeit ::
  "'ns interp \<Rightarrow> 'ns world \<Rightarrow> string \<Rightarrow> int option \<Rightarrow> int option \<Rightarrow> bool option \<Rightarrow>
   (exn + result) \<times> 'ns world" where
  "magic_timeit I ns stmt ncalls0 repeat_arg force_ms_arg =
     (let repeat0 = (case repeat_arg of None \<Rightarrow> 3 | Some r \<Rightarrow> r);
          force_ms = (case force_ms_arg of None \<Rightarrow> False | Some f \<Rightarrow> f)
      in case Timer_compile I stmt ns of
           (Some e, w1) \<Rightarrow> (Inl e, w1)
         | (None, w1) \<Rightarrow>
             (case (case ncalls0 of
                      None \<Rightarrow> calibrate I stmt (py_range 1 10) 1 w1
                    | Some n \<Rightarrow> (Inr n, w1)) of
                (Inl e, w2) \<Rightarrow> (Inl e, w2)
              | (Inr number, w2) \<Rightarrow>
                  (case Timer_repeat I stmt repeat0 number w2 of
                     (Inl e, w3) \<Rightarrow> (Inl e, w3)
                   | (Inr ts, w3) \<Rightarrow>
                       (case best_of ts number of
                          Inl e \<Rightarrow> (Inl e, w3)
                        | Inr best \<Rightarrow>
                            (timing_result (math_log10 I) number repeat0 force_ms best, w3)))))"

section \<open>Benchmark.run\<close>

text \<open>
  \<^verbatim>\<open>traceback.print_exc(file=buf)\<close> inside an \<^verbatim>\<open>except\<close> clause writes the header line
  and then the stack entries and the exception.
\<close>

definition print_exc :: "'ns interp \<Rightarrow> exn \<Rightarrow> string" where
  "print_exc I e = ''Traceback (most recent call last):'' @ [CHR 0x0A] @ format_exception I e"

text \<open>
  \<^verbatim>\<open>run\<close>: the setup stands before the \<^verbatim>\<open>try\<close>, the bare \<^verbatim>\<open>except\<close> catches whatever
  \<^verbatim>\<open>magic_timeit\<close> raises, and the cleanup stands after the \<^verbatim>\<open>try\<close> statement.
\<close>

definition Benchmark_run :: "'ns interp \<Rightarrow> Benchmark \<Rightarrow> 'ns world \<Rightarrow> (exn + result) \<times> 'ns world" where
  "Benchmark_run I self w =
     (case Benchmark_setup I self w of
        (Some e, w1) \<Rightarrow> (Inl e, w1)
      | (None, w1) \<Rightarrow>
          (case magic_timeit I w1 (code self) (ncalls self) (Some (repeat self)) (Some True) of
             (r, w2) \<Rightarrow>
               (let res = (case r of
                             Inr res0 \<Rightarrow> res0(''success'' \<mapsto> PyBool True)
                           | Inl e \<Rightarrow> [''success'' \<mapsto> PyBool False,
                                       ''traceback'' \<mapsto> PyStr (print_exc I e)])
                in case Benchmark_cleanup I self w2 of
                     (Some e, w3) \<Rightarrow> (Inl e, w3)
                   | (None, w3) \<Rightarrow> (Inr res, w3))))"

section \<open>BenchmarkSuite and gather_benchmarks\<close>

definition isinstance_Benchmark :: "pyval \<Rightarrow> bool" where
  "isinstance_Benchmark v = (case v of PyBenchmark b \<Rightarrow> True | _ \<Rightarrow> False)"

definition isinstance_BenchmarkSuite :: "pyval \<Rightarrow> bool" where
  "isinstance_BenchmarkSuite v = (case v of PySuite xs \<Rightarrow> True | _ \<Rightarrow> False)"

text \<open>The property \<^verbatim>\<open>benchmarks\<close>: \<^verbatim>\<open>filter(lambda elem: isinstance(elem, Benchmark), self)\<close>.\<close>

definition BenchmarkSuite_benchmarks :: "pyval list \<Rightarrow> pyval list" where
  "BenchmarkSuite_benchmarks self = filter isinstance_Benchmark self"

text \<open>
  A namespace is a dictionary; it is given as the list of its items in the order in which
  the dictionary iterates, so that \<^verbatim>\<open>ns.values()\<close> is the list of the second components.
  The loop of \<^verbatim>\<open>gather_benchmarks\<close> carries the list \<open>benchmarks\<close> it appends to.
\<close>

fun gather_loop :: "pyval list \<Rightarrow> pyval list \<Rightarrow> pyval list" where
  "gather_loop [] benchmarks = benchmarks"
| "gather_loop (v # vs) benchmarks =
     (if isinstance_Benchmark v then gather_loop vs (benchmarks @ [v])
      else if isinstance_BenchmarkSuite v then
        (case v of
           PySuite xs \<Rightarrow> gather_loop vs (benchmarks @ BenchmarkSuite_benchmarks xs)
         | _ \<Rightarrow> gather_loop vs benchmarks)
      else gather_loop vs benchmarks)"

definition gather_benchmarks :: "(string \<times> pyval) list \<Rightarrow> pyval list" where
  "gather_benchmarks ns = gather_loop (map snd ns) []"

section \<open>Reading the log\<close>

text \<open>
  The events a measurement writes are the compilation and the timed trials. The trials of
  a calibration that starts at \<open>number\<close> and whose attempts took the times \<open>ts\<close> are
  \<open>calib_events number ts\<close>: the count grows tenfold from one attempt to the next.
\<close>

fun is_timing :: "event \<Rightarrow> bool" where
  "is_timing (InnerCompiled r) = True"
| "is_timing (Timeit n r) = True"
| "is_timing (SetupExec r) = False"
| "is_timing (CleanupExec r) = False"

fun is_cleanup :: "event \<Rightarrow> bool" where
  "is_cleanup (CleanupExec r) = True"
| "is_cleanup (InnerCompiled r) = False"
| "is_cleanup (Timeit n r) = False"
| "is_cleanup (SetupExec r) = False"

definition cleanups :: "event list \<Rightarrow> nat" where
  "cleanups tr = length (filter is_cleanup tr)"

fun calib_events :: "int \<Rightarrow> real list \<Rightarrow> event list" where
  "calib_events number [] = []"
| "calib_events number (t # ts) = Timeit number (Inr t) # calib_events (number * 10) ts"

definition trial_events :: "int \<Rightarrow> real list \<Rightarrow> event list" where
  "trial_events number ts = map (\<lambda>t. Timeit number (Inr t)) ts"

text \<open>
  How the count of a measurement came about, read off the log: an explicit count is taken
  as it is and nothing is timed for it; without one, between one and nine attempts were
  timed, all but the last below the threshold of 0.1, and the count is that of the last
  attempt when it reached the threshold, and ten to the ninth when nine attempts did not.
\<close>

definition calibrated :: "int option \<Rightarrow> int \<Rightarrow> event list \<Rightarrow> bool" where
  "calibrated nc number cal =
     (case nc of
        Some n \<Rightarrow> number = n \<and> cal = []
      | None \<Rightarrow>
          (\<exists>cs. cal = calib_events 1 cs \<and> cs \<noteq> [] \<and> length cs \<le> 9
             \<and> (\<forall>t \<in> set (butlast cs). t < 1 / 10)
             \<and> (if last cs \<ge> 1 / 10 then number = 10 ^ (length cs - 1)
                 else length cs = 9 \<and> number = 10 ^ 9)))"

section \<open>The flattening the specification describes\<close>

text \<open>
  The specification's discovery rule, in its own words: a value that is a benchmark is
  included, a collection contributes the benchmarks extracted recursively from it and
  from the collections nested in it, and every other value is ignored.
\<close>

fun extract_spec :: "pyval \<Rightarrow> pyval list" where
  "extract_spec (PyBenchmark b) = [PyBenchmark b]"
| "extract_spec (PySuite xs) = concat (map extract_spec xs)"
| "extract_spec PyNone = []"
| "extract_spec (PyBool b) = []"
| "extract_spec (PyInt i) = []"
| "extract_spec (PyFloat x) = []"
| "extract_spec (PyStr s) = []"

definition flatten_spec :: "(string \<times> pyval) list \<Rightarrow> pyval list" where
  "flatten_spec ns = concat (map extract_spec (map snd ns))"

section \<open>A scripted interpreter\<close>

text \<open>
  An interpreter for concrete runs, with an injected clock: the namespace holds the times
  the next trials will take (a trial takes no time once the script is used up) and the
  texts executed in it so far. The text \<^verbatim>\<open>1/0\<close> raises \<^verbatim>\<open>ZeroDivisionError\<close>, as a
  statement to time whenever the loop body runs at all, and \<^verbatim>\<open>raise KeyError\<close> raises
  \<^verbatim>\<open>KeyError\<close>; every other text succeeds. Its logarithm returns, for the times the
  examples below take the logarithm of, the double that \<^verbatim>\<open>math.log10\<close> returns for them
  (\<open>0.0\<close> for 1, \<open>-0.3010299956639812\<close> for 0.5, \<open>-1.3010299956639813\<close> for 0.05 and
  \<open>-3.3010299956639813\<close> for 0.0005, each written as the fraction the double is), and the
  real logarithm elsewhere.
\<close>

definition scripted_log10 :: "real \<Rightarrow> real" where
  "scripted_log10 x =
     (if x = 1 then 0
      else if x = 1 / 2 then - 5422874305198591 / 18014398509481984
      else if x = 1 / 20 then - 45775923466173 / 35184372088832
      else if x = 1 / 2000 then - 116144667643837 / 35184372088832
      else log 10 x)"

record script_ns =
  clock :: "real list"
  executed :: "string list"

definition raises :: "string \<Rightarrow> exn option" where
  "raises txt =
     (if txt = ''1/0'' then Some ZeroDivisionError
      else if txt = ''raise KeyError'' then Some (Raised ''KeyError'')
      else None)"

definition scripted :: "script_ns interp" where
  "scripted =
     \<lparr> globals_copy = (\<lambda>ns. ns\<lparr>executed := []\<rparr>),
       exec_in = (\<lambda>txt ns.
          case raises txt of
            Some e \<Rightarrow> (Some e, ns)
          | None \<Rightarrow> (None, ns\<lparr>executed := executed ns @ [txt]\<rparr>)),
       compile_inner = (\<lambda>stmt ns. (None, ns)),
       timeit_inner = (\<lambda>stmt number ns.
          case (if number > 0 then raises stmt else None) of
            Some e \<Rightarrow> (Inl e, ns)
          | None \<Rightarrow>
              (case clock ns of
                 [] \<Rightarrow> (Inr 0, ns)
               | t # ts \<Rightarrow> (Inr t, ns\<lparr>clock := ts\<rparr>))),
       format_exception = (\<lambda>e. ''Exception''),
       math_log10 = scripted_log10 \<rparr>"

definition start :: "real list \<Rightarrow> script_ns world" where
  "start ts = \<lparr>env = \<lparr>clock = ts, executed = []\<rparr>, trace = []\<rparr>"

subsection \<open>Example benchmarks and namespaces\<close>

definition bench :: "string \<Rightarrow> string \<Rightarrow> string \<Rightarrow> Benchmark" where
  "bench setup0 code0 cleanup0 =
     Benchmark_init code0 setup0 None None (Some cleanup0) None None None None None"

definition bench_a :: Benchmark where
  "bench_a = Benchmark_init ''f(x)'' ''x = 1'' None None None (Some ''a'') None None None None"

definition bench_b :: Benchmark where
  "bench_b = Benchmark_init ''g(x)'' ''x = 2'' None None None (Some ''b'') None None None None"

definition bench_c :: Benchmark where
  "bench_c = Benchmark_init ''h(x)'' ''x = 3'' None None None (Some ''c'') None None None None"

text \<open>
  The namespace of the specification's flattening example:
  \<^verbatim>\<open>{a: Benchmark, b: BenchmarkSuite([Benchmark, "not a benchmark", BenchmarkSuite([Benchmark])]), c: 42}\<close>.
\<close>

definition example_ns :: "(string \<times> pyval) list" where
  "example_ns =
     [(''a'', PyBenchmark bench_a),
      (''b'', PySuite [PyBenchmark bench_b, PyStr ''not a benchmark'', PySuite [PyBenchmark bench_c]]),
      (''c'', PyInt 42)]"

section \<open>The digest on the test suite of RFC 1321\<close>

lemma md5_hexdigest_empty: "md5_hexdigest '''' = ''d41d8cd98f00b204e9800998ecf8427e''"
  by code_simp

lemma md5_hexdigest_abc: "md5_hexdigest ''abc'' = ''900150983cd24fb0d6963f7d28e17f72''"
  by code_simp

section \<open>What the timer writes to the log\<close>

lemma Timer_timeit_trace:
  "Timer_timeit I stmt number w = (r, w') \<Longrightarrow> trace w' = trace w @ [Timeit number r]"
  by (auto simp: Timer_timeit_def split: prod.splits)

lemma Timer_compile_trace:
  "Timer_compile I stmt w = (r, w') \<Longrightarrow> trace w' = trace w @ [InnerCompiled r]"
  by (auto simp: Timer_compile_def split: prod.splits)

lemma repeat_loop_Inr:
  "repeat_loop I stmt k number r w = (Inr ts, w') \<Longrightarrow>
   \<exists>new. ts = r @ new \<and> length new = k \<and> trace w' = trace w @ trial_events number new"
proof (induction k arbitrary: r w)
  case 0
  then show ?case by (simp add: trial_events_def)
next
  case (Suc k)
  obtain x w1 where t: "Timer_timeit I stmt number w = (x, w1)"
    by (cases "Timer_timeit I stmt number w")
  show ?case
  proof (cases x)
    case (Inl e)
    with Suc.prems t show ?thesis by simp
  next
    case (Inr t0)
    with Suc.prems t have "repeat_loop I stmt k number (r @ [t0]) w1 = (Inr ts, w')"
      by simp
    from Suc.IH [OF this] obtain new where
      n: "ts = (r @ [t0]) @ new" "length new = k" "trace w' = trace w1 @ trial_events number new"
      by blast
    from Timer_timeit_trace [OF t] Inr have "trace w1 = trace w @ [Timeit number (Inr t0)]"
      by simp
    with n have "ts = r @ (t0 # new) \<and> length (t0 # new) = Suc k
        \<and> trace w' = trace w @ trial_events number (t0 # new)"
      by (simp add: trial_events_def)
    then show ?thesis by blast
  qed
qed

lemma repeat_loop_timing:
  "repeat_loop I stmt k number r w = (x, w') \<Longrightarrow>
   \<exists>evs. trace w' = trace w @ evs \<and> list_all is_timing evs"
proof (induction k arbitrary: r w)
  case 0
  then show ?case by simp
next
  case (Suc k)
  obtain y w1 where t: "Timer_timeit I stmt number w = (y, w1)"
    by (cases "Timer_timeit I stmt number w")
  note tr = Timer_timeit_trace [OF t]
  show ?case
  proof (cases y)
    case (Inl e)
    with Suc.prems t have "w' = w1" by simp
    with tr show ?thesis by simp
  next
    case (Inr t0)
    with Suc.prems t have "repeat_loop I stmt k number (r @ [t0]) w1 = (x, w')"
      by simp
    from Suc.IH [OF this] obtain evs where "trace w' = trace w1 @ evs" "list_all is_timing evs"
      by blast
    with tr have "trace w' = trace w @ (Timeit number y # evs) \<and> list_all is_timing (Timeit number y # evs)"
      by simp
    then show ?thesis by blast
  qed
qed

lemma calibrate_timing:
  "calibrate I stmt rest number w = (x, w') \<Longrightarrow>
   \<exists>evs. trace w' = trace w @ evs \<and> list_all is_timing evs"
proof (induction rest arbitrary: number w)
  case Nil
  then show ?case by simp
next
  case (Cons i rest)
  obtain y w1 where t: "Timer_timeit I stmt number w = (y, w1)"
    by (cases "Timer_timeit I stmt number w")
  note tr = Timer_timeit_trace [OF t]
  show ?case
  proof (cases y)
    case (Inl e)
    with Cons.prems t have "w' = w1" by simp
    with tr show ?thesis by simp
  next
    case (Inr t0)
    show ?thesis
    proof (cases "t0 \<ge> 1 / 10")
      case True
      with Cons.prems t Inr have "w' = w1" by simp
      with tr show ?thesis by simp
    next
      case False
      with Cons.prems t Inr have "calibrate I stmt rest (number * 10) w1 = (x, w')"
        by simp
      from Cons.IH [OF this] obtain evs where "trace w' = trace w1 @ evs" "list_all is_timing evs"
        by blast
      with tr have "trace w' = trace w @ (Timeit number y # evs) \<and> list_all is_timing (Timeit number y # evs)"
        by simp
      then show ?thesis by blast
    qed
  qed
qed

text \<open>What a calibration that returns has done.\<close>

lemma calibrate_Inr:
  "calibrate I stmt rest number w = (Inr n, w') \<Longrightarrow>
   \<exists>ts. trace w' = trace w @ calib_events number ts
      \<and> length ts \<le> length rest
      \<and> (\<forall>t \<in> set (butlast ts). t < 1 / 10)
      \<and> (if ts \<noteq> [] \<and> last ts \<ge> 1 / 10 then n = number * 10 ^ (length ts - 1)
          else length ts = length rest \<and> n = number * 10 ^ length rest)"
proof (induction rest arbitrary: number w)
  case Nil
  then have "trace w' = trace w @ calib_events number [] \<and> n = number" by simp
  then show ?case by (intro exI [of _ "[]"]) simp
next
  case (Cons i rest)
  obtain y w1 where t: "Timer_timeit I stmt number w = (y, w1)"
    by (cases "Timer_timeit I stmt number w")
  note tr = Timer_timeit_trace [OF t]
  show ?case
  proof (cases y)
    case (Inl e)
    with Cons.prems t show ?thesis by simp
  next
    case (Inr t0)
    show ?thesis
    proof (cases "t0 \<ge> 1 / 10")
      case True
      with Cons.prems t Inr have "w' = w1" "n = number" by simp_all
      with tr Inr True show ?thesis by (intro exI [of _ "[t0]"]) simp
    next
      case False
      with Cons.prems t Inr have "calibrate I stmt rest (number * 10) w1 = (Inr n, w')"
        by simp
      from Cons.IH [OF this] obtain ts where ih:
        "trace w' = trace w1 @ calib_events (number * 10) ts"
        "length ts \<le> length rest"
        "\<forall>t \<in> set (butlast ts). t < 1 / 10"
        "if ts \<noteq> [] \<and> last ts \<ge> 1 / 10 then n = number * 10 * 10 ^ (length ts - 1)
         else length ts = length rest \<and> n = number * 10 * 10 ^ length rest"
        by blast
      have 1: "trace w' = trace w @ calib_events number (t0 # ts)"
        using ih(1) tr Inr by simp
      have 2: "length (t0 # ts) \<le> length (i # rest)"
        using ih(2) by simp
      have 3: "\<forall>t \<in> set (butlast (t0 # ts)). t < 1 / 10"
        using ih(3) False by auto
      have 4: "if t0 # ts \<noteq> [] \<and> last (t0 # ts) \<ge> 1 / 10
               then n = number * 10 ^ (length (t0 # ts) - 1)
               else length (t0 # ts) = length (i # rest) \<and> n = number * 10 ^ length (i # rest)"
      proof (cases "ts = []")
        case True
        with ih(4) False show ?thesis by simp
      next
        case nonempty: False
        then obtain m where m: "length ts = Suc m" by (cases ts) auto
        with ih(4) nonempty show ?thesis by (auto simp: m)
      qed
      from 1 2 3 4 show ?thesis by blast
    qed
  qed
qed

section \<open>The order of the unit\<close>

lemma unit_order_force: "unit_order lg10 True best = 1"
  by (simp add: unit_order_def)

lemma unit_order_floor:
  "0 < best \<Longrightarrow> best < 1000 \<Longrightarrow>
   unit_order lg10 False best = min (- (\<lfloor>lg10 best\<rfloor> div 3)) 3"
  by (simp add: unit_order_def)

lemma unit_order_large: "1000 \<le> best \<Longrightarrow> unit_order lg10 False best = 0"
  by (simp add: unit_order_def)

lemma unit_order_nonpositive: "best \<le> 0 \<Longrightarrow> unit_order lg10 False best = 3"
  by (simp add: unit_order_def)

lemma scripted_order_one: "unit_order scripted_log10 False 1 = 0"
  by (simp add: unit_order_def scripted_log10_def)

lemma scripted_order_half: "unit_order scripted_log10 False (1 / 2) = 1"
  by (simp add: unit_order_def scripted_log10_def)

lemma scripted_order_twentieth: "unit_order scripted_log10 False (1 / 20) = 1"
  by (simp add: unit_order_def scripted_log10_def)

lemma scripted_order_half_milli: "unit_order scripted_log10 False (1 / 2000) = 2"
  by (simp add: unit_order_def scripted_log10_def)

section \<open>A measurement that returns\<close>

lemma py_getitem_in_range: "0 \<le> i \<Longrightarrow> i < int (length xs) \<Longrightarrow> py_getitem xs i = Inr (xs ! nat i)"
  by (simp add: py_getitem_def)

lemma timing_result_order:
  "0 \<le> unit_order lg10 f best \<Longrightarrow> unit_order lg10 f best \<le> 3 \<Longrightarrow>
   timing_result lg10 number r f best =
     Inr [''loops'' \<mapsto> PyInt number, ''repeat'' \<mapsto> PyInt r,
          ''timing'' \<mapsto> PyFloat (best * scaling ! nat (unit_order lg10 f best)),
          ''units'' \<mapsto> PyStr (units ! nat (unit_order lg10 f best))]"
proof -
  assume o: "0 \<le> unit_order lg10 f best" "unit_order lg10 f best \<le> 3"
  then have r: "unit_order lg10 f best < int (length scaling)"
    "unit_order lg10 f best < int (length units)"
    by (simp_all add: scaling_def units_def)
  show ?thesis
    unfolding timing_result_def Let_def
    by (simp add: py_getitem_in_range [OF o(1) r(1)] py_getitem_in_range [OF o(1) r(2)])
qed

text \<open>
  A dictionary is returned only when both lists could be indexed, and then the scaling
  factor and the unit stand at the same position.
\<close>

lemma py_getitem_Inr:
  "py_getitem xs i = Inr x \<Longrightarrow>
   \<exists>k < length xs. x = xs ! k \<and> int k = (if i < 0 then int (length xs) + i else i)"
proof -
  assume a: "py_getitem xs i = Inr x"
  show ?thesis
  proof (cases "0 \<le> i \<and> i < int (length xs)")
    case True
    with a have "x = xs ! nat i" by (simp add: py_getitem_def)
    with True show ?thesis by (intro exI [of _ "nat i"]) auto
  next
    case False
    with a have b: "i < 0 \<and> - int (length xs) \<le> i" and x: "x = xs ! nat (int (length xs) + i)"
      by (auto simp: py_getitem_def split: if_splits)
    then show ?thesis by (intro exI [of _ "nat (int (length xs) + i)"]) auto
  qed
qed

lemma timing_result_Inr:
  assumes "timing_result lg10 number r f best = Inr res"
  shows "\<exists>k < 4. res = [''loops'' \<mapsto> PyInt number, ''repeat'' \<mapsto> PyInt r,
          ''timing'' \<mapsto> PyFloat (best * scaling ! k), ''units'' \<mapsto> PyStr (units ! k)]"
proof -
  define order where "order = unit_order lg10 f best"
  from assms obtain sc u where
    sc: "py_getitem scaling order = Inr sc" and u: "py_getitem units order = Inr u" and
    res: "res = [''loops'' \<mapsto> PyInt number, ''repeat'' \<mapsto> PyInt r,
          ''timing'' \<mapsto> PyFloat (best * sc), ''units'' \<mapsto> PyStr u]"
    unfolding timing_result_def Let_def order_def [symmetric]
    by (auto split: sum.splits)
  have len: "length scaling = 4" "length units = 4"
    by (simp_all add: scaling_def units_def)
  from py_getitem_Inr [OF sc] obtain k where
    k: "k < length scaling" "sc = scaling ! k"
      "int k = (if order < 0 then int (length scaling) + order else order)"
    by blast
  from py_getitem_Inr [OF u] obtain k' where
    k': "k' < length units" "u = units ! k'"
      "int k' = (if order < 0 then int (length units) + order else order)"
    by blast
  from k(3) k'(3) have "int k' = int k" unfolding len by simp
  then have "k' = k" by simp
  with k(1,2) k'(2) res have "k < 4 \<and> res = [''loops'' \<mapsto> PyInt number, ''repeat'' \<mapsto> PyInt r,
          ''timing'' \<mapsto> PyFloat (best * scaling ! k), ''units'' \<mapsto> PyStr (units ! k)]"
    unfolding len by simp
  then show ?thesis by blast
qed

lemma py_min_Inr: "py_min ts = Inr m \<Longrightarrow> ts \<noteq> [] \<and> m = Min (set ts)"
proof (cases ts)
  case Nil
  assume "py_min ts = Inr m"
  with Nil show ?thesis by simp
next
  case (Cons a list)
  assume "py_min ts = Inr m"
  with Cons have "m = fold min list a" by simp
  also have "\<dots> = Min (set (a # list))" by (rule Min.set_eq_fold [symmetric])
  finally show ?thesis using Cons by simp
qed

lemma best_of_Inr:
  "best_of ts number = Inr best \<Longrightarrow>
   ts \<noteq> [] \<and> number \<noteq> 0 \<and> best = Min (set ts) / real_of_int number"
  by (auto simp: best_of_def split: sum.splits if_splits dest: py_min_Inr)

lemma length_py_range: "length (py_range 1 10) = 9"
  by (simp add: py_range_def)

lemma calibrate_range_Inr:
  assumes "calibrate I stmt (py_range 1 10) 1 w = (Inr n, w')"
  shows "\<exists>cs. trace w' = trace w @ calib_events 1 cs \<and> cs \<noteq> [] \<and> length cs \<le> 9
      \<and> (\<forall>t \<in> set (butlast cs). t < 1 / 10)
      \<and> (if last cs \<ge> 1 / 10 then n = 10 ^ (length cs - 1) else length cs = 9 \<and> n = 10 ^ 9)"
proof -
  from calibrate_Inr [OF assms] obtain cs where c:
    "trace w' = trace w @ calib_events 1 cs" "length cs \<le> 9"
    "\<forall>t \<in> set (butlast cs). t < 1 / 10"
    "if cs \<noteq> [] \<and> last cs \<ge> 1 / 10 then n = 1 * 10 ^ (length cs - 1)
     else length cs = 9 \<and> n = 1 * 10 ^ 9"
    unfolding length_py_range by blast
  have ne: "cs \<noteq> []"
    using c(4) by (cases "cs = []") auto
  with c(4) have "if last cs \<ge> 1 / 10 then n = 10 ^ (length cs - 1) else length cs = 9 \<and> n = 10 ^ 9"
    by (simp split: if_splits)
  with c(1,2,3) ne show ?thesis by blast
qed

lemma magic_timeit_Inr:
  assumes "magic_timeit I w stmt nc rp fm = (Inr res, w')"
  shows "\<exists>number ts cal.
      trace w' = trace w @ [InnerCompiled None] @ cal @ trial_events number ts
    \<and> calibrated nc number cal
    \<and> length ts = nat (case rp of None \<Rightarrow> 3 | Some r \<Rightarrow> r) \<and> ts \<noteq> [] \<and> number \<noteq> 0
    \<and> timing_result (math_log10 I) number (case rp of None \<Rightarrow> 3 | Some r \<Rightarrow> r)
         (case fm of None \<Rightarrow> False | Some f \<Rightarrow> f) (Min (set ts) / real_of_int number) = Inr res"
proof -
  define r0 where "r0 = (case rp of None \<Rightarrow> 3 | Some r \<Rightarrow> r)"
  define f0 where "f0 = (case fm of None \<Rightarrow> False | Some f \<Rightarrow> f)"
  obtain c w1 where comp: "Timer_compile I stmt w = (c, w1)"
    by (cases "Timer_compile I stmt w")
  from assms comp have cN: "c = None"
    by (cases c) (simp_all add: magic_timeit_def)
  have tr1: "trace w1 = trace w @ [InnerCompiled None]"
    using Timer_compile_trace [OF comp] cN by simp
  define cal_step where
    "cal_step = (case nc of None \<Rightarrow> calibrate I stmt (py_range 1 10) 1 w1 | Some n \<Rightarrow> (Inr n, w1))"
  obtain x w2 where cs: "cal_step = (x, w2)" by (cases cal_step)
  from assms comp cN cs obtain number where xN: "x = Inr number"
    by (cases x) (simp_all add: magic_timeit_def cal_step_def [symmetric])
  obtain y w3 where rep: "Timer_repeat I stmt r0 number w2 = (y, w3)"
    by (cases "Timer_repeat I stmt r0 number w2")
  from assms comp cN cs xN rep obtain ts where yN: "y = Inr ts"
    by (cases y) (simp_all add: magic_timeit_def cal_step_def [symmetric] r0_def [symmetric])
  from assms comp cN cs xN rep yN obtain best where
    b: "best_of ts number = Inr best" and w3: "w' = w3"
    and res: "timing_result (math_log10 I) number r0 f0 best = Inr res"
    by (cases "best_of ts number")
      (simp_all add: magic_timeit_def cal_step_def [symmetric] r0_def [symmetric] f0_def [symmetric])
  note bo = best_of_Inr [OF b]
  from rep yN have "repeat_loop I stmt (nat r0) number [] w2 = (Inr ts, w3)"
    by (simp add: Timer_repeat_def)
  from repeat_loop_Inr [OF this] have
    len: "length ts = nat r0" and tr3: "trace w3 = trace w2 @ trial_events number ts"
    by auto
  have "\<exists>cal. trace w2 = trace w1 @ cal \<and> calibrated nc number cal"
  proof (cases nc)
    case None
    with cs xN have "calibrate I stmt (py_range 1 10) 1 w1 = (Inr number, w2)"
      by (simp add: cal_step_def)
    from calibrate_range_Inr [OF this] obtain cs where
      c1: "trace w2 = trace w1 @ calib_events 1 cs" and
      c2: "cs \<noteq> [] \<and> length cs \<le> 9
        \<and> (\<forall>t \<in> set (butlast cs). t < 1 / 10)
        \<and> (if last cs \<ge> 1 / 10 then number = 10 ^ (length cs - 1)
            else length cs = 9 \<and> number = 10 ^ 9)"
      by blast
    have "calibrated nc number (calib_events 1 cs)"
      unfolding calibrated_def None option.case
      by (rule exI [of _ cs], rule conjI [OF refl c2])
    with c1 show ?thesis by blast
  next
    case (Some n)
    with cs xN show ?thesis by (simp add: cal_step_def calibrated_def)
  qed
  then obtain cal where cal: "trace w2 = trace w1 @ cal" "calibrated nc number cal"
    by blast
  have "trace w' = trace w @ [InnerCompiled None] @ cal @ trial_events number ts"
    using tr1 cal(1) tr3 w3 by simp
  with cal(2) len bo res show ?thesis
    unfolding r0_def f0_def by blast
qed

lemma magic_timeit_timing:
  "magic_timeit I w stmt nc rp fm = (x, w') \<Longrightarrow>
   \<exists>evs. trace w' = trace w @ evs \<and> list_all is_timing evs"
proof -
  assume a: "magic_timeit I w stmt nc rp fm = (x, w')"
  define r0 where "r0 = (case rp of None \<Rightarrow> 3 | Some r \<Rightarrow> r)"
  obtain c w1 where comp: "Timer_compile I stmt w = (c, w1)"
    by (cases "Timer_compile I stmt w")
  have tr1: "trace w1 = trace w @ [InnerCompiled c]"
    using Timer_compile_trace [OF comp] .
  show ?thesis
  proof (cases c)
    case (Some e)
    with a comp have "w' = w1" by (simp add: magic_timeit_def)
    with tr1 show ?thesis by simp
  next
    case None
    define cal_step where
      "cal_step = (case nc of None \<Rightarrow> calibrate I stmt (py_range 1 10) 1 w1 | Some n \<Rightarrow> (Inr n, w1))"
    obtain y w2 where cs: "cal_step = (y, w2)" by (cases cal_step)
    have "\<exists>evs. trace w2 = trace w1 @ evs \<and> list_all is_timing evs"
    proof (cases nc)
      case None
      with cs have "calibrate I stmt (py_range 1 10) 1 w1 = (y, w2)" by (simp add: cal_step_def)
      then show ?thesis by (rule calibrate_timing)
    next
      case (Some n)
      with cs show ?thesis by (simp add: cal_step_def)
    qed
    then obtain evs2 where e2: "trace w2 = trace w1 @ evs2" "list_all is_timing evs2" by blast
    show ?thesis
    proof (cases y)
      case (Inl e)
      with a comp None cs have "w' = w2"
        by (simp add: magic_timeit_def cal_step_def [symmetric])
      with tr1 e2 have "trace w' = trace w @ (InnerCompiled c # evs2)
          \<and> list_all is_timing (InnerCompiled c # evs2)" by simp
      then show ?thesis by blast
    next
      case (Inr number)
      obtain z w3 where rep: "Timer_repeat I stmt r0 number w2 = (z, w3)"
        by (cases "Timer_repeat I stmt r0 number w2")
      then have "repeat_loop I stmt (nat r0) number [] w2 = (z, w3)"
        by (simp add: Timer_repeat_def)
      from repeat_loop_timing [OF this] obtain evs3 where
        e3: "trace w3 = trace w2 @ evs3" "list_all is_timing evs3" by blast
      from a comp None cs Inr rep have "w' = w3"
        by (simp add: magic_timeit_def cal_step_def [symmetric] r0_def [symmetric]
            split: sum.splits)
      with tr1 e2 e3 have "trace w' = trace w @ (InnerCompiled c # evs2 @ evs3)
          \<and> list_all is_timing (InnerCompiled c # evs2 @ evs3)" by simp
      then show ?thesis by blast
    qed
  qed
qed

section \<open>Benchmark identity\<close>

text \<open>
  Claim C1, as amended. The checksum is the digest of the plain concatenation
  \<^verbatim>\<open>setup + code + cleanup\<close>: two benchmarks whose concatenations are equal, and so in
  particular two benchmarks with the same setup, code and cleanup, have the same checksum,
  and changing the name, the description, the number of calls or any other field but
  these three leaves the checksum as it is. The converse, that equal checksums come from
  equal triples only, does not hold.
\<close>

theorem checksum_same_texts:
  "(setup_text d1 @ code d1 @ cleanup d1 = setup_text d2 @ code d2 @ cleanup d2
      \<longrightarrow> Benchmark_checksum d1 = Benchmark_checksum d2)
   \<and> (setup_text d1 = setup_text d2 \<and> code d1 = code d2 \<and> cleanup d1 = cleanup d2
      \<longrightarrow> Benchmark_checksum d1 = Benchmark_checksum d2)
   \<and> Benchmark_checksum
        (d1\<lparr>ncalls := n, repeat := r, name := nm, description := ds, start_date := sd,
            logy := lg, db_path := p\<rparr>) = Benchmark_checksum d1"
  by (simp add: Benchmark_checksum_def)

theorem checksum_same_texts_witness:
  "setup_text bench_a = setup_text (bench_a\<lparr>name := Some ''renamed'', ncalls := Some 7\<rparr>)
   \<and> code bench_a = code (bench_a\<lparr>name := Some ''renamed'', ncalls := Some 7\<rparr>)
   \<and> cleanup bench_a = cleanup (bench_a\<lparr>name := Some ''renamed'', ncalls := Some 7\<rparr>)
   \<and> name bench_a \<noteq> name (bench_a\<lparr>name := Some ''renamed'', ncalls := Some 7\<rparr>)
   \<and> Benchmark_checksum bench_a
       = Benchmark_checksum (bench_a\<lparr>name := Some ''renamed'', ncalls := Some 7\<rparr>)"
  using checksum_same_texts [of bench_a "bench_a\<lparr>name := Some ''renamed'', ncalls := Some 7\<rparr>"]
  by (simp add: bench_a_def Benchmark_init_def)

text \<open>
  The converse fails because the three texts are joined without a separator: moving the
  statement \<^verbatim>\<open>y=2;\<close> from the timed code into the setup gives another benchmark with the
  same checksum.
\<close>

theorem checksum_collision:
  "Benchmark_checksum (bench ''x=1;'' ''y=2;z=3'' '''')
     = Benchmark_checksum (bench ''x=1;y=2;'' ''z=3'' '''')
   \<and> (setup_text (bench ''x=1;'' ''y=2;z=3'' ''''), code (bench ''x=1;'' ''y=2;z=3'' ''''),
       cleanup (bench ''x=1;'' ''y=2;z=3'' ''''))
     \<noteq> (setup_text (bench ''x=1;y=2;'' ''z=3'' ''''), code (bench ''x=1;y=2;'' ''z=3'' ''''),
       cleanup (bench ''x=1;y=2;'' ''z=3'' ''''))"
  by (simp add: Benchmark_checksum_def bench_def Benchmark_init_def)

section \<open>Calibration\<close>

lemma py_range_1_10: "py_range 1 10 = [1, 2, 3, 4, 5, 6, 7, 8, 9]"
  by (simp add: py_range_def upto_rec1)

lemma scripted_calibration_run:
  "magic_timeit scripted (start [5 / 100, 5 / 10, 5 / 10, 5 / 10, 5 / 10]) ''pass'' None None None
   = (Inr [''loops'' \<mapsto> PyInt 10, ''repeat'' \<mapsto> PyInt 3, ''timing'' \<mapsto> PyFloat 50,
           ''units'' \<mapsto> PyStr ''ms''],
      \<lparr>env = \<lparr>clock = [], executed = []\<rparr>,
       trace = [InnerCompiled None, Timeit 1 (Inr (5 / 100)), Timeit 10 (Inr (5 / 10)),
                Timeit 10 (Inr (5 / 10)), Timeit 10 (Inr (5 / 10)), Timeit 10 (Inr (5 / 10))]\<rparr>)"
  by (simp add: magic_timeit_def Timer_compile_def scripted_def start_def py_range_1_10
      Timer_timeit_def raises_def Timer_repeat_def eval_nat_numeral best_of_def
      timing_result_order scripted_order_twentieth scaling_def units_def)

text \<open>
  Claim C2, as amended. A measurement without an explicit count that returns has
  calibrated as follows. The count starts at 1 and grows tenfold from one timed attempt to
  the next; at least one and at most nine attempts are timed (counts 1 to ten to the
  eighth), every attempt but the last took less than 0.1, and the calibration stops at the
  first attempt that takes at least 0.1, whose count is then the one measured with and
  reported as \<open>loops\<close>. When nine attempts have stayed below 0.1 the count is multiplied
  once more: the measurement uses ten to the ninth, ten times the last count that was
  timed.
\<close>

theorem calibration_count:
  assumes "magic_timeit I w stmt None rp fm = (Inr res, w')"
  shows "\<exists>number cs ts.
      trace w' = trace w @ [InnerCompiled None] @ calib_events 1 cs @ trial_events number ts
    \<and> cs \<noteq> [] \<and> length cs \<le> 9
    \<and> (\<forall>t \<in> set (butlast cs). t < 1 / 10)
    \<and> (if last cs \<ge> 1 / 10 then number = 10 ^ (length cs - 1)
        else length cs = 9 \<and> number = 10 ^ 9)
    \<and> res ''loops'' = Some (PyInt number)"
proof -
  from magic_timeit_Inr [OF assms] obtain number ts cal where
    tr: "trace w' = trace w @ [InnerCompiled None] @ cal @ trial_events number ts" and
    cal: "calibrated None number cal" and
    res: "timing_result (math_log10 I) number (case rp of None \<Rightarrow> 3 | Some r \<Rightarrow> r)
            (case fm of None \<Rightarrow> False | Some f \<Rightarrow> f) (Min (set ts) / real_of_int number) = Inr res"
    by blast
  from cal obtain cs where
    c1: "cal = calib_events 1 cs" and
    c2: "cs \<noteq> []" "length cs \<le> 9" "\<forall>t \<in> set (butlast cs). t < 1 / 10"
      "if last cs \<ge> 1 / 10 then number = 10 ^ (length cs - 1)
       else length cs = 9 \<and> number = 10 ^ 9"
    unfolding calibrated_def option.case by blast
  from timing_result_Inr [OF res] have "res ''loops'' = Some (PyInt number)"
    by auto
  with tr c1 c2 show ?thesis by blast
qed

theorem calibration_count_witness:
  "\<exists>number cs ts.
      [InnerCompiled None, Timeit 1 (Inr (5 / 100)), Timeit 10 (Inr (5 / 10)),
       Timeit 10 (Inr (5 / 10)), Timeit 10 (Inr (5 / 10)), Timeit 10 (Inr (5 / 10))]
        = [] @ [InnerCompiled None] @ calib_events 1 cs @ trial_events number ts
    \<and> cs \<noteq> [] \<and> length cs \<le> 9
    \<and> (\<forall>t \<in> set (butlast cs). t < 1 / 10)
    \<and> (if last cs \<ge> 1 / 10 then number = 10 ^ (length cs - 1)
        else length cs = 9 \<and> number = 10 ^ 9)
    \<and> [''loops'' \<mapsto> PyInt 10, ''repeat'' \<mapsto> PyInt 3, ''timing'' \<mapsto> PyFloat 50,
        ''units'' \<mapsto> PyStr ''ms''] ''loops'' = Some (PyInt number)"
  using calibration_count [OF scripted_calibration_run] by (simp add: start_def)

text \<open>
  With a clock on which every trial takes no time, the calibration times the nine counts 1
  to 100000000 and returns 1000000000, a count it has not timed: the count used is not
  the last attempted one, and there is no tenth attempt.
\<close>

theorem calibration_exhausted:
  "fst (calibrate scripted ''pass'' (py_range 1 10) 1 (start [])) = Inr 1000000000
   \<and> trace (snd (calibrate scripted ''pass'' (py_range 1 10) 1 (start [])))
     = [Timeit 1 (Inr 0), Timeit 10 (Inr 0), Timeit 100 (Inr 0), Timeit 1000 (Inr 0),
        Timeit 10000 (Inr 0), Timeit 100000 (Inr 0), Timeit 1000000 (Inr 0),
        Timeit 10000000 (Inr 0), Timeit 100000000 (Inr 0)]
   \<and> fst (magic_timeit scripted (start []) ''pass'' None (Some 1) None)
     = Inr [''loops'' \<mapsto> PyInt 1000000000, ''repeat'' \<mapsto> PyInt 1, ''timing'' \<mapsto> PyFloat 0,
            ''units'' \<mapsto> PyStr ''ns'']"
proof -
  have u: "unit_order scripted_log10 False 0 = 3"
    by (rule unit_order_nonpositive) simp
  show ?thesis
    by (simp add: magic_timeit_def Timer_compile_def scripted_def start_def py_range_1_10
        Timer_timeit_def raises_def Timer_repeat_def eval_nat_numeral best_of_def
        timing_result_order u scaling_def units_def)
qed

section \<open>Best of the repeated trials\<close>

text \<open>
  The specification's example: the three trials of a count of 4 take 5, 2 and 8 seconds.
  The time per iteration is 2 / 4 seconds, reported as 500 milliseconds; the mean of the
  trials would have given 1250.
\<close>

lemma scripted_trials_5_2_8:
  "magic_timeit scripted (start [5, 2, 8]) ''pass'' (Some 4) None None
   = (Inr [''loops'' \<mapsto> PyInt 4, ''repeat'' \<mapsto> PyInt 3, ''timing'' \<mapsto> PyFloat 500,
           ''units'' \<mapsto> PyStr ''ms''],
      \<lparr>env = \<lparr>clock = [], executed = []\<rparr>,
       trace = [InnerCompiled None, Timeit 4 (Inr 5), Timeit 4 (Inr 2), Timeit 4 (Inr 8)]\<rparr>)"
  by (simp add: magic_timeit_def Timer_compile_def scripted_def start_def
      Timer_timeit_def raises_def Timer_repeat_def eval_nat_numeral best_of_def
      timing_result_order scripted_order_half scaling_def units_def)

text \<open>
  Claim C3. Every measurement that returns has run \<open>repeat\<close> trials of its count as its
  last events, \<open>repeat\<close> being at least 1 and 3 when it is not given (also in the
  constructor of a benchmark), and the count being different from 0 (at least 1 when
  calibrated). The timing it reports is the minimum of the times of these trials divided
  by the count, expressed in the unit it reports: multiplied by the scaling factor that
  stands at the same position \<open>k\<close> as the unit.
\<close>

theorem best_of_trials:
  assumes "magic_timeit I w stmt nc rp fm = (Inr res, w')"
  shows "\<exists>number ts pre k.
      trace w' = trace w @ pre @ trial_events number ts
    \<and> length ts = nat (case rp of None \<Rightarrow> 3 | Some r \<Rightarrow> r)
    \<and> 1 \<le> (case rp of None \<Rightarrow> 3 | Some r \<Rightarrow> r)
    \<and> number \<noteq> 0
    \<and> (case nc of None \<Rightarrow> 1 \<le> number | Some n \<Rightarrow> number = n)
    \<and> k < 4
    \<and> res ''timing'' = Some (PyFloat (Min (set ts) / real_of_int number * scaling ! k))
    \<and> res ''units'' = Some (PyStr (units ! k))
    \<and> res ''loops'' = Some (PyInt number)
    \<and> res ''repeat'' = Some (PyInt (case rp of None \<Rightarrow> 3 | Some r \<Rightarrow> r))
    \<and> repeat (Benchmark_init c s n0 None cl nm ds sd lg db) = 3"
proof -
  define r0 where "r0 = (case rp of None \<Rightarrow> 3 | Some r \<Rightarrow> r)"
  define f0 where "f0 = (case fm of None \<Rightarrow> False | Some f \<Rightarrow> f)"
  from magic_timeit_Inr [OF assms] obtain number ts cal where
    tr: "trace w' = trace w @ [InnerCompiled None] @ cal @ trial_events number ts" and
    cal: "calibrated nc number cal" and
    len: "length ts = nat r0" and ne: "ts \<noteq> []" and n0: "number \<noteq> 0" and
    res: "timing_result (math_log10 I) number r0 f0 (Min (set ts) / real_of_int number) = Inr res"
    unfolding r0_def f0_def by blast
  from timing_result_Inr [OF res] obtain k where k4: "k < 4" and
    r: "res = [''loops'' \<mapsto> PyInt number, ''repeat'' \<mapsto> PyInt r0,
          ''timing'' \<mapsto> PyFloat (Min (set ts) / real_of_int number * scaling ! k),
          ''units'' \<mapsto> PyStr (units ! k)]"
    by blast
  from len ne have r1: "1 \<le> r0" by (cases "1 \<le> r0") auto
  have nc: "case nc of None \<Rightarrow> 1 \<le> number | Some n \<Rightarrow> number = n"
  proof (cases nc)
    case None
    with cal have "number = 10 ^ 9 \<or> (\<exists>m. number = 10 ^ m)"
      unfolding calibrated_def by (auto split: if_splits)
    then have "1 \<le> number" by auto
    with None show ?thesis by simp
  next
    case (Some n)
    with cal show ?thesis by (simp add: calibrated_def)
  qed
  have fields: "res ''timing'' = Some (PyFloat (Min (set ts) / real_of_int number * scaling ! k))"
    "res ''units'' = Some (PyStr (units ! k))"
    "res ''loops'' = Some (PyInt number)"
    "res ''repeat'' = Some (PyInt r0)"
    unfolding r by simp_all
  have d: "repeat (Benchmark_init c s n0 None cl nm ds sd lg db) = 3"
    by (simp add: Benchmark_init_def)
  have "trace w' = trace w @ ([InnerCompiled None] @ cal) @ trial_events number ts"
    using tr by simp
  with len r1 n0 nc k4 fields d show ?thesis
    unfolding r0_def by blast
qed

theorem best_of_trials_witness:
  "\<exists>number ts pre k.
      [InnerCompiled None, Timeit 4 (Inr 5), Timeit 4 (Inr 2), Timeit 4 (Inr 8)]
        = [] @ pre @ trial_events number ts
    \<and> length ts = nat 3
    \<and> (1 :: int) \<le> 3
    \<and> number \<noteq> 0
    \<and> number = 4
    \<and> k < 4
    \<and> [''loops'' \<mapsto> PyInt 4, ''repeat'' \<mapsto> PyInt 3, ''timing'' \<mapsto> PyFloat 500,
        ''units'' \<mapsto> PyStr ''ms''] ''timing''
        = Some (PyFloat (Min (set ts) / real_of_int number * scaling ! k))
    \<and> [''loops'' \<mapsto> PyInt 4, ''repeat'' \<mapsto> PyInt 3, ''timing'' \<mapsto> PyFloat 500,
        ''units'' \<mapsto> PyStr ''ms''] ''units'' = Some (PyStr (units ! k))
    \<and> [''loops'' \<mapsto> PyInt 4, ''repeat'' \<mapsto> PyInt 3, ''timing'' \<mapsto> PyFloat 500,
        ''units'' \<mapsto> PyStr ''ms''] ''loops'' = Some (PyInt number)
    \<and> [''loops'' \<mapsto> PyInt 4, ''repeat'' \<mapsto> PyInt 3, ''timing'' \<mapsto> PyFloat 500,
        ''units'' \<mapsto> PyStr ''ms''] ''repeat'' = Some (PyInt 3)
    \<and> repeat (Benchmark_init ''f(x)'' ''x = 1'' None None None None None None None None) = 3"
  using best_of_trials [OF scripted_trials_5_2_8,
      of "''f(x)''" "''x = 1''" None None None None None None None]
  by (simp add: start_def)

section \<open>The unit of the result\<close>

text \<open>
  Claim C4, as amended. With \<open>force_ms\<close> the unit is milliseconds whatever the time. Without
  it, a time per iteration of 1000 seconds or more is reported in seconds and a time that
  is not positive in nanoseconds. For a time between the two the unit follows from the
  floor \<open>k\<close> of what \<^verbatim>\<open>math.log10\<close> returns for it: seconds for \<open>k\<close> from 0 to 2,
  milliseconds from \<open>-3\<close> to \<open>-1\<close>, microseconds from \<open>-6\<close> to \<open>-4\<close>, nanoseconds below. So
  exactly 1 second, whose logarithm is returned as 0, is reported in seconds, and 0.0005
  seconds, whose logarithm is returned between \<open>-4\<close> and \<open>-3\<close>, in microseconds. The timing
  reported is the time multiplied by the scaling factor of the unit. Every measurement
  that returns returns such a dictionary, for the minimum of its trials divided by its
  count. Nothing is said of a time below 1000 for which the logarithm returned is 3 or
  more.
\<close>

theorem unit_selection:
  "timing_result lg10 number r True best
     = Inr [''loops'' \<mapsto> PyInt number, ''repeat'' \<mapsto> PyInt r,
            ''timing'' \<mapsto> PyFloat (best * 1000), ''units'' \<mapsto> PyStr ''ms'']
   \<and> (1000 \<le> best \<longrightarrow>
        timing_result lg10 number r False best
          = Inr [''loops'' \<mapsto> PyInt number, ''repeat'' \<mapsto> PyInt r,
                 ''timing'' \<mapsto> PyFloat (best * 1), ''units'' \<mapsto> PyStr ''s''])
   \<and> (best \<le> 0 \<longrightarrow>
        timing_result lg10 number r False best
          = Inr [''loops'' \<mapsto> PyInt number, ''repeat'' \<mapsto> PyInt r,
                 ''timing'' \<mapsto> PyFloat (best * 1000000000), ''units'' \<mapsto> PyStr ''ns''])
   \<and> (0 < best \<and> best < 1000 \<and> \<lfloor>lg10 best\<rfloor> \<le> 2 \<longrightarrow>
        timing_result lg10 number r False best
          = Inr [''loops'' \<mapsto> PyInt number, ''repeat'' \<mapsto> PyInt r,
                 ''timing'' \<mapsto> PyFloat (best *
                    (if 0 \<le> \<lfloor>lg10 best\<rfloor> then 1 else if - 3 \<le> \<lfloor>lg10 best\<rfloor> then 1000
                     else if - 6 \<le> \<lfloor>lg10 best\<rfloor> then 1000000 else 1000000000)),
                 ''units'' \<mapsto> PyStr
                    (if 0 \<le> \<lfloor>lg10 best\<rfloor> then ''s'' else if - 3 \<le> \<lfloor>lg10 best\<rfloor> then ''ms''
                     else if - 6 \<le> \<lfloor>lg10 best\<rfloor> then ''us'' else ''ns'')])
   \<and> (lg10 1 = 0 \<longrightarrow>
        timing_result lg10 number r False 1
          = Inr [''loops'' \<mapsto> PyInt number, ''repeat'' \<mapsto> PyInt r,
                 ''timing'' \<mapsto> PyFloat 1, ''units'' \<mapsto> PyStr ''s''])
   \<and> (- 4 \<le> lg10 (5 / 10000) \<and> lg10 (5 / 10000) < - 3 \<longrightarrow>
        timing_result lg10 number r False (5 / 10000)
          = Inr [''loops'' \<mapsto> PyInt number, ''repeat'' \<mapsto> PyInt r,
                 ''timing'' \<mapsto> PyFloat 500, ''units'' \<mapsto> PyStr ''us''])
   \<and> (magic_timeit I w stmt nc rp fm = (Inr res, w') \<longrightarrow>
        (\<exists>n ts. ts \<noteq> [] \<and> n \<noteq> 0
           \<and> timing_result (math_log10 I) n (case rp of None \<Rightarrow> 3 | Some r \<Rightarrow> r)
                (case fm of None \<Rightarrow> False | Some f \<Rightarrow> f) (Min (set ts) / real_of_int n)
              = Inr res))"
proof -
  have forced: "timing_result lg10 number r True best
     = Inr [''loops'' \<mapsto> PyInt number, ''repeat'' \<mapsto> PyInt r,
            ''timing'' \<mapsto> PyFloat (best * 1000), ''units'' \<mapsto> PyStr ''ms'']"
    by (simp add: timing_result_order unit_order_force scaling_def units_def)
  have large: "timing_result lg10 number r False best
          = Inr [''loops'' \<mapsto> PyInt number, ''repeat'' \<mapsto> PyInt r,
                 ''timing'' \<mapsto> PyFloat (best * 1), ''units'' \<mapsto> PyStr ''s'']"
    if "1000 \<le> best"
    using that by (simp add: timing_result_order unit_order_large scaling_def units_def)
  have nonpos: "timing_result lg10 number r False best
          = Inr [''loops'' \<mapsto> PyInt number, ''repeat'' \<mapsto> PyInt r,
                 ''timing'' \<mapsto> PyFloat (best * 1000000000), ''units'' \<mapsto> PyStr ''ns'']"
    if "best \<le> 0"
    using that by (simp add: timing_result_order unit_order_nonpositive scaling_def units_def)
  have by_floor: "timing_result lg10 number r False x
          = Inr [''loops'' \<mapsto> PyInt number, ''repeat'' \<mapsto> PyInt r,
                 ''timing'' \<mapsto> PyFloat (x *
                    (if 0 \<le> \<lfloor>lg10 x\<rfloor> then 1 else if - 3 \<le> \<lfloor>lg10 x\<rfloor> then 1000
                     else if - 6 \<le> \<lfloor>lg10 x\<rfloor> then 1000000 else 1000000000)),
                 ''units'' \<mapsto> PyStr
                    (if 0 \<le> \<lfloor>lg10 x\<rfloor> then ''s'' else if - 3 \<le> \<lfloor>lg10 x\<rfloor> then ''ms''
                     else if - 6 \<le> \<lfloor>lg10 x\<rfloor> then ''us'' else ''ns'')]"
    if x: "0 < x" "x < 1000" and k: "\<lfloor>lg10 x\<rfloor> \<le> 2" for x
  proof -
    define k where "k = \<lfloor>lg10 x\<rfloor>"
    have o: "unit_order lg10 False x = min (- (k div 3)) 3"
      unfolding k_def by (rule unit_order_floor [OF x])
    consider (s) "0 \<le> k" "k \<le> 2" | (ms) "- 3 \<le> k" "k < 0" | (us) "- 6 \<le> k" "k < - 3"
      | (ns) "k < - 6"
      using k unfolding k_def by linarith
    then have "unit_order lg10 False x
        = (if 0 \<le> k then 0 else if - 3 \<le> k then 1 else if - 6 \<le> k then 2 else 3)"
    proof cases
      case s
      then have "k div 3 = 0" by simp
      with s show ?thesis by (simp add: o)
    next
      case ms
      then have "k div 3 = - 1" by presburger
      with ms show ?thesis by (simp add: o)
    next
      case us
      then have "k div 3 = - 2" by presburger
      with us show ?thesis by (simp add: o)
    next
      case ns
      then have "k div 3 \<le> - 3" by presburger
      with ns show ?thesis by (simp add: o)
    qed
    then show ?thesis
      unfolding k_def by (simp add: timing_result_order scaling_def units_def)
  qed
  have one: "timing_result lg10 number r False 1
          = Inr [''loops'' \<mapsto> PyInt number, ''repeat'' \<mapsto> PyInt r,
                 ''timing'' \<mapsto> PyFloat 1, ''units'' \<mapsto> PyStr ''s'']"
    if "lg10 1 = 0"
    using by_floor [of 1] that by simp
  have half_milli: "timing_result lg10 number r False (5 / 10000)
          = Inr [''loops'' \<mapsto> PyInt number, ''repeat'' \<mapsto> PyInt r,
                 ''timing'' \<mapsto> PyFloat 500, ''units'' \<mapsto> PyStr ''us'']"
    if "- 4 \<le> lg10 (5 / 10000) \<and> lg10 (5 / 10000) < - 3"
  proof -
    define x :: real where "x = 5 / 10000"
    from that have "\<lfloor>lg10 x\<rfloor> = - 4"
      unfolding x_def [symmetric] by (intro floor_unique) simp_all
    moreover have "0 < x" "x < 1000"
      by (simp_all add: x_def)
    ultimately have "timing_result lg10 number r False x
          = Inr [''loops'' \<mapsto> PyInt number, ''repeat'' \<mapsto> PyInt r,
                 ''timing'' \<mapsto> PyFloat (x * 1000000), ''units'' \<mapsto> PyStr ''us'']"
      using by_floor [of x] by simp
    moreover have "x * 1000000 = 500"
      by (simp add: x_def)
    ultimately have "timing_result lg10 number r False x
          = Inr [''loops'' \<mapsto> PyInt number, ''repeat'' \<mapsto> PyInt r,
                 ''timing'' \<mapsto> PyFloat 500, ''units'' \<mapsto> PyStr ''us'']"
      by (simp only:)
    then show ?thesis unfolding x_def .
  qed
  have link: "\<exists>n ts. ts \<noteq> [] \<and> n \<noteq> 0
           \<and> timing_result (math_log10 I) n (case rp of None \<Rightarrow> 3 | Some r \<Rightarrow> r)
                (case fm of None \<Rightarrow> False | Some f \<Rightarrow> f) (Min (set ts) / real_of_int n)
              = Inr res"
    if "magic_timeit I w stmt nc rp fm = (Inr res, w')"
    using magic_timeit_Inr [OF that] by blast
  from forced large nonpos by_floor [of best] one half_milli link show ?thesis
    by blast
qed

text \<open>
  Two measurements of one trial of one iteration, which takes 1 second in the first and
  0.0005 seconds in the second.
\<close>

lemma scripted_one_second:
  "magic_timeit scripted (start [1]) ''pass'' (Some 1) (Some 1) (Some False)
   = (Inr [''loops'' \<mapsto> PyInt 1, ''repeat'' \<mapsto> PyInt 1, ''timing'' \<mapsto> PyFloat 1,
           ''units'' \<mapsto> PyStr ''s''],
      \<lparr>env = \<lparr>clock = [], executed = []\<rparr>, trace = [InnerCompiled None, Timeit 1 (Inr 1)]\<rparr>)"
  by (simp add: magic_timeit_def Timer_compile_def scripted_def start_def
      Timer_timeit_def raises_def Timer_repeat_def best_of_def
      timing_result_order scripted_order_one scaling_def units_def)

theorem unit_selection_witness:
  "timing_result scripted_log10 1 1 True 2000
     = Inr [''loops'' \<mapsto> PyInt 1, ''repeat'' \<mapsto> PyInt 1,
            ''timing'' \<mapsto> PyFloat 2000000, ''units'' \<mapsto> PyStr ''ms'']
   \<and> (1000 :: real) \<le> 2000
   \<and> timing_result scripted_log10 1 1 False 2000
     = Inr [''loops'' \<mapsto> PyInt 1, ''repeat'' \<mapsto> PyInt 1,
            ''timing'' \<mapsto> PyFloat 2000, ''units'' \<mapsto> PyStr ''s'']
   \<and> (- 3 :: real) \<le> 0
   \<and> timing_result scripted_log10 1 1 False (- 3)
     = Inr [''loops'' \<mapsto> PyInt 1, ''repeat'' \<mapsto> PyInt 1,
            ''timing'' \<mapsto> PyFloat (- 3000000000), ''units'' \<mapsto> PyStr ''ns'']
   \<and> scripted_log10 1 = 0
   \<and> timing_result scripted_log10 1 1 False 1
     = Inr [''loops'' \<mapsto> PyInt 1, ''repeat'' \<mapsto> PyInt 1,
            ''timing'' \<mapsto> PyFloat 1, ''units'' \<mapsto> PyStr ''s'']
   \<and> - 4 \<le> scripted_log10 (5 / 10000) \<and> scripted_log10 (5 / 10000) < - 3
   \<and> timing_result scripted_log10 1 1 False (5 / 10000)
     = Inr [''loops'' \<mapsto> PyInt 1, ''repeat'' \<mapsto> PyInt 1,
            ''timing'' \<mapsto> PyFloat 500, ''units'' \<mapsto> PyStr ''us'']
   \<and> magic_timeit scripted (start [1]) ''pass'' (Some 1) (Some 1) (Some False)
     = (Inr [''loops'' \<mapsto> PyInt 1, ''repeat'' \<mapsto> PyInt 1, ''timing'' \<mapsto> PyFloat 1,
             ''units'' \<mapsto> PyStr ''s''],
        \<lparr>env = \<lparr>clock = [], executed = []\<rparr>, trace = [InnerCompiled None, Timeit 1 (Inr 1)]\<rparr>)
   \<and> (\<exists>n ts. ts \<noteq> [] \<and> n \<noteq> 0
         \<and> timing_result (math_log10 scripted) n 1 False (Min (set ts) / real_of_int n)
           = Inr [''loops'' \<mapsto> PyInt 1, ''repeat'' \<mapsto> PyInt 1, ''timing'' \<mapsto> PyFloat 1,
                  ''units'' \<mapsto> PyStr ''s''])"
proof -
  have l1: "scripted_log10 1 = 0"
    by (simp add: scripted_log10_def)
  have l2: "- 4 \<le> scripted_log10 (5 / 10000) \<and> scripted_log10 (5 / 10000) < - 3"
    by (simp add: scripted_log10_def)
  note a = unit_selection [of scripted_log10 1 1 2000 scripted "start [1]" "''pass''" "Some 1"
      "Some 1" "Some False"
      "[''loops'' \<mapsto> PyInt 1, ''repeat'' \<mapsto> PyInt 1, ''timing'' \<mapsto> PyFloat 1,
        ''units'' \<mapsto> PyStr ''s'']"
      "\<lparr>env = \<lparr>clock = [], executed = []\<rparr>, trace = [InnerCompiled None, Timeit 1 (Inr 1)]\<rparr>"]
  note b = unit_selection [of scripted_log10 1 1 "- 3" scripted "start [1]" "''pass''" "Some 1"
      "Some 1" "Some False"
      "[''loops'' \<mapsto> PyInt 1, ''repeat'' \<mapsto> PyInt 1, ''timing'' \<mapsto> PyFloat 1,
        ''units'' \<mapsto> PyStr ''s'']"
      "\<lparr>env = \<lparr>clock = [], executed = []\<rparr>, trace = [InnerCompiled None, Timeit 1 (Inr 1)]\<rparr>"]
  from a b l1 l2 scripted_one_second show ?thesis
    by simp
qed

text \<open>
  A time per iteration of 0.0005 seconds is reported as 500 microseconds, not in
  milliseconds: \<^verbatim>\<open>math.log10(0.0005)\<close> is \<open>-3.3010299956639813\<close>, its floor is \<open>-4\<close>, the
  floor division of that by 3 is \<open>-2\<close>, and the order is 2.
\<close>

theorem half_millisecond_is_microseconds:
  "fst (magic_timeit scripted (start [5 / 10000]) ''pass'' (Some 1) (Some 1) (Some False))
     = Inr [''loops'' \<mapsto> PyInt 1, ''repeat'' \<mapsto> PyInt 1, ''timing'' \<mapsto> PyFloat 500,
            ''units'' \<mapsto> PyStr ''us'']
   \<and> timing_result scripted_log10 1 1 False (5 / 10000)
     = Inr [''loops'' \<mapsto> PyInt 1, ''repeat'' \<mapsto> PyInt 1, ''timing'' \<mapsto> PyFloat 500,
            ''units'' \<mapsto> PyStr ''us'']
   \<and> scripted_log10 (5 / 10000) = - 116144667643837 / 35184372088832
   \<and> \<lfloor>scripted_log10 (5 / 10000)\<rfloor> = - 4"
  by (simp add: magic_timeit_def Timer_compile_def scripted_def start_def
      Timer_timeit_def raises_def Timer_repeat_def best_of_def
      timing_result_order scripted_order_half_milli scaling_def units_def scripted_log10_def)

section \<open>Discovery\<close>

lemma gather_loop_append:
  "gather_loop vs benchmarks =
     benchmarks @ concat (map (\<lambda>v. case v of
         PyBenchmark b \<Rightarrow> [v]
       | PySuite xs \<Rightarrow> filter isinstance_Benchmark xs
       | _ \<Rightarrow> []) vs)"
proof (induction vs arbitrary: benchmarks)
  case Nil
  then show ?case by simp
next
  case (Cons v vs)
  show ?case
    by (cases v)
      (simp_all add: Cons.IH isinstance_Benchmark_def isinstance_BenchmarkSuite_def
        BenchmarkSuite_benchmarks_def)
qed

text \<open>
  Claim C5, as amended. For every namespace, \<open>gather_benchmarks\<close> returns, in the order
  of the namespace and then of each suite, the values that are benchmarks and, for each
  value that is a suite, the members of that suite that are benchmarks themselves. Every
  other member of a suite is discarded, a suite nested in it included (nothing is
  extracted from a nested suite), every other value of the namespace is ignored, and
  nothing is deduplicated. All that is returned is a benchmark.
\<close>

theorem gather_direct_members:
  "gather_benchmarks ns =
     concat (map (\<lambda>v. case v of
         PyBenchmark b \<Rightarrow> [v]
       | PySuite xs \<Rightarrow> filter isinstance_Benchmark xs
       | _ \<Rightarrow> []) (map snd ns))
   \<and> list_all isinstance_Benchmark (gather_benchmarks ns)"
proof -
  have eq: "gather_benchmarks ns =
     concat (map (\<lambda>v. case v of
         PyBenchmark b \<Rightarrow> [v]
       | PySuite xs \<Rightarrow> filter isinstance_Benchmark xs
       | _ \<Rightarrow> []) (map snd ns))"
    by (simp add: gather_benchmarks_def gather_loop_append)
  have "list_all isinstance_Benchmark (gather_benchmarks ns)"
    unfolding eq list_all_iff
    by (auto simp: isinstance_Benchmark_def split: pyval.splits)
  with eq show ?thesis by simp
qed

theorem gather_direct_members_witness:
  "gather_benchmarks example_ns =
     concat (map (\<lambda>v. case v of
         PyBenchmark b \<Rightarrow> [v]
       | PySuite xs \<Rightarrow> filter isinstance_Benchmark xs
       | _ \<Rightarrow> []) (map snd example_ns))
   \<and> list_all isinstance_Benchmark (gather_benchmarks example_ns)"
  by (rule gather_direct_members [of example_ns])

text \<open>
  The namespace of the specification's example flattens to 2 benchmarks, not 3: the
  benchmark inside the suite nested in \<open>b\<close> is not found.
\<close>

theorem nested_suite_is_dropped:
  "gather_benchmarks example_ns = [PyBenchmark bench_a, PyBenchmark bench_b]
   \<and> length (gather_benchmarks example_ns) = 2
   \<and> flatten_spec example_ns = [PyBenchmark bench_a, PyBenchmark bench_b, PyBenchmark bench_c]
   \<and> gather_benchmarks example_ns \<noteq> flatten_spec example_ns"
  by (simp add: gather_benchmarks_def flatten_spec_def example_ns_def isinstance_Benchmark_def
      isinstance_BenchmarkSuite_def BenchmarkSuite_benchmarks_def)

section \<open>Running a benchmark\<close>

lemma Benchmark_setup_trace:
  "Benchmark_setup I b w = (r, w1) \<Longrightarrow>
   trace w1 = trace w @ [SetupExec r]
   \<and> exec_in I (setup_text b) (globals_copy I (env w)) = (r, env w1)"
  by (auto simp: Benchmark_setup_def split: prod.splits)

lemma Benchmark_cleanup_trace:
  "Benchmark_cleanup I b w = (c, w') \<Longrightarrow>
   trace w' = trace w @ [CleanupExec c] \<and> exec_in I (cleanup b) (env w) = (c, env w')"
  by (auto simp: Benchmark_cleanup_def split: prod.splits)

lemma run_setup_raises:
  "Benchmark_setup I b w = (Some e, w1) \<Longrightarrow> Benchmark_run I b w = (Inl e, w1)"
  by (simp add: Benchmark_run_def)

lemma run_after_setup:
  assumes "Benchmark_setup I b w = (None, w1)"
    and "magic_timeit I w1 (code b) (ncalls b) (Some (repeat b)) (Some True) = (r, w2)"
    and "Benchmark_cleanup I b w2 = (c, w3)"
  shows "Benchmark_run I b w =
     (case c of
        Some e \<Rightarrow> Inl e
      | None \<Rightarrow>
          Inr (case r of
                 Inr res0 \<Rightarrow> res0(''success'' \<mapsto> PyBool True)
               | Inl e \<Rightarrow> [''success'' \<mapsto> PyBool False, ''traceback'' \<mapsto> PyStr (print_exc I e)]),
      w3)"
  using assms by (simp add: Benchmark_run_def Let_def split: option.splits)

lemma cleanups_timing: "list_all is_timing evs \<Longrightarrow> cleanups evs = 0"
  by (induction evs) (auto simp: cleanups_def elim: is_timing.elims)

lemma cleanups_append: "cleanups (xs @ ys) = cleanups xs + cleanups ys"
  by (simp add: cleanups_def)

text \<open>
  The specification's test of the cleanup: the timed code \<^verbatim>\<open>1/0\<close> raises, and the
  cleanup sets a flag. The run starts in a world whose namespace holds something stale;
  after it, the namespace holds the setup and the flag, set once.
\<close>

lemma scripted_failing_setup:
  "Benchmark_setup scripted (bench ''x = 1'' ''1/0'' ''flag = True'')
     \<lparr>env = \<lparr>clock = [], executed = [''stale'']\<rparr>, trace = []\<rparr>
   = (None, \<lparr>env = \<lparr>clock = [], executed = [''x = 1'']\<rparr>, trace = [SetupExec None]\<rparr>)"
  by (simp add: Benchmark_setup_def bench_def Benchmark_init_def scripted_def raises_def)

lemma scripted_failing_run:
  "Benchmark_run scripted (bench ''x = 1'' ''1/0'' ''flag = True'')
     \<lparr>env = \<lparr>clock = [], executed = [''stale'']\<rparr>, trace = []\<rparr>
   = (Inr [''success'' \<mapsto> PyBool False,
           ''traceback'' \<mapsto> PyStr (print_exc scripted ZeroDivisionError)],
      \<lparr>env = \<lparr>clock = [], executed = [''x = 1'', ''flag = True'']\<rparr>,
       trace = [SetupExec None, InnerCompiled None, Timeit 1 (Inl ZeroDivisionError),
                CleanupExec None]\<rparr>)"
  by (simp add: Benchmark_run_def Benchmark_setup_def Benchmark_cleanup_def bench_def
      Benchmark_init_def magic_timeit_def Timer_compile_def Timer_timeit_def py_range_1_10
      scripted_def raises_def)

text \<open>
  Claim C6. In every run whose setup succeeds, the measurement follows the setup,
  whatever its outcome \<open>r\<close> (a result or a failure), and writes timing events only; then
  the cleanup text is executed, in the namespace the measurement has left, as the last
  event of the run; the log of the run holds one cleanup more than before it. When the
  cleanup raises, the run raises that exception; otherwise the run returns a result.
\<close>

theorem cleanup_runs_once:
  assumes "Benchmark_setup I b w = (None, w1)"
  shows "\<exists>r w2 c w3 evs.
       magic_timeit I w1 (code b) (ncalls b) (Some (repeat b)) (Some True) = (r, w2)
     \<and> exec_in I (cleanup b) (env w2) = (c, env w3)
     \<and> list_all is_timing evs
     \<and> trace w2 = trace w @ [SetupExec None] @ evs
     \<and> trace w3 = trace w2 @ [CleanupExec c]
     \<and> cleanups (trace w3) = cleanups (trace w) + 1
     \<and> snd (Benchmark_run I b w) = w3
     \<and> (case c of
          Some e \<Rightarrow> fst (Benchmark_run I b w) = Inl e
        | None \<Rightarrow> (\<exists>res. fst (Benchmark_run I b w) = Inr res))"
proof -
  obtain r w2 where t: "magic_timeit I w1 (code b) (ncalls b) (Some (repeat b)) (Some True) = (r, w2)"
    by (cases "magic_timeit I w1 (code b) (ncalls b) (Some (repeat b)) (Some True)")
  obtain c w3 where cl: "Benchmark_cleanup I b w2 = (c, w3)"
    by (cases "Benchmark_cleanup I b w2")
  from magic_timeit_timing [OF t] obtain evs where
    evs: "trace w2 = trace w1 @ evs" "list_all is_timing evs" by blast
  have tr1: "trace w1 = trace w @ [SetupExec None]"
    using Benchmark_setup_trace [OF assms] by simp
  have tr2: "trace w2 = trace w @ [SetupExec None] @ evs"
    using evs(1) tr1 by simp
  have tr3: "trace w3 = trace w2 @ [CleanupExec c]"
    and ex: "exec_in I (cleanup b) (env w2) = (c, env w3)"
    using Benchmark_cleanup_trace [OF cl] by simp_all
  have n: "cleanups (trace w3) = cleanups (trace w) + 1"
    unfolding tr3 tr2 cleanups_append using cleanups_timing [OF evs(2)]
    by (simp add: cleanups_def)
  note run = run_after_setup [OF assms t cl]
  have s: "snd (Benchmark_run I b w) = w3"
    unfolding run by simp
  have f: "case c of
          Some e \<Rightarrow> fst (Benchmark_run I b w) = Inl e
        | None \<Rightarrow> (\<exists>res. fst (Benchmark_run I b w) = Inr res)"
    unfolding run by (cases c) simp_all
  from t ex evs(2) tr2 tr3 n s f show ?thesis by blast
qed

theorem cleanup_runs_once_witness:
  "\<exists>r w2 c w3 evs.
       magic_timeit scripted \<lparr>env = \<lparr>clock = [], executed = [''x = 1'']\<rparr>, trace = [SetupExec None]\<rparr>
         (code (bench ''x = 1'' ''1/0'' ''flag = True''))
         (ncalls (bench ''x = 1'' ''1/0'' ''flag = True''))
         (Some (repeat (bench ''x = 1'' ''1/0'' ''flag = True''))) (Some True) = (r, w2)
     \<and> exec_in scripted (cleanup (bench ''x = 1'' ''1/0'' ''flag = True'')) (env w2) = (c, env w3)
     \<and> list_all is_timing evs
     \<and> trace w2 = trace \<lparr>env = \<lparr>clock = [], executed = [''stale'']\<rparr>, trace = []\<rparr>
          @ [SetupExec None] @ evs
     \<and> trace w3 = trace w2 @ [CleanupExec c]
     \<and> cleanups (trace w3)
        = cleanups (trace \<lparr>env = \<lparr>clock = [], executed = [''stale'']\<rparr>, trace = []\<rparr>) + 1
     \<and> snd (Benchmark_run scripted (bench ''x = 1'' ''1/0'' ''flag = True'')
           \<lparr>env = \<lparr>clock = [], executed = [''stale'']\<rparr>, trace = []\<rparr>) = w3
     \<and> (case c of
          Some e \<Rightarrow> fst (Benchmark_run scripted (bench ''x = 1'' ''1/0'' ''flag = True'')
             \<lparr>env = \<lparr>clock = [], executed = [''stale'']\<rparr>, trace = []\<rparr>) = Inl e
        | None \<Rightarrow> (\<exists>res. fst (Benchmark_run scripted (bench ''x = 1'' ''1/0'' ''flag = True'')
             \<lparr>env = \<lparr>clock = [], executed = [''stale'']\<rparr>, trace = []\<rparr>) = Inr res))"
  by (rule cleanup_runs_once [OF scripted_failing_setup])

section \<open>Failures of the timed code\<close>

lemma print_exc_nonempty: "print_exc I e \<noteq> []"
  by (simp add: print_exc_def)

text \<open>
  Claim C7, as amended. In every run whose setup succeeds and whose cleanup then completes
  without raising: when the measurement raises \<open>e\<close> (while compiling, calibrating or timing
  the code, or in the arithmetic after it), the run does not raise but returns the
  dictionary with exactly the keys \<open>success\<close>, which is false, and \<open>traceback\<close>, a non-empty
  text, so that \<open>timing\<close>, \<open>loops\<close> and \<open>units\<close> are absent; when the measurement returns,
  the run returns its dictionary with \<open>success\<close> set to true. A failure of the
  measurement is never what the run raises.
\<close>

theorem timing_failure_is_a_result:
  assumes "Benchmark_setup I b w = (None, w1)"
    and "magic_timeit I w1 (code b) (ncalls b) (Some (repeat b)) (Some True) = (r, w2)"
    and "Benchmark_cleanup I b w2 = (None, w3)"
  shows "(\<forall>e. r = Inl e \<longrightarrow>
            Benchmark_run I b w
              = (Inr [''success'' \<mapsto> PyBool False, ''traceback'' \<mapsto> PyStr (print_exc I e)], w3)
            \<and> print_exc I e \<noteq> []
            \<and> dom [''success'' \<mapsto> PyBool False, ''traceback'' \<mapsto> PyStr (print_exc I e)]
                = {''success'', ''traceback''})
       \<and> (\<forall>res0. r = Inr res0 \<longrightarrow>
            Benchmark_run I b w = (Inr (res0(''success'' \<mapsto> PyBool True)), w3))"
  using run_after_setup [OF assms] by (auto simp: print_exc_nonempty)

text \<open>
  The specification's batch of three benchmarks, run one after the other in the same
  world: the first and the third succeed, and the second, whose code is \<^verbatim>\<open>1/0\<close>, fails.
  Each run returns a result.
\<close>

lemma scripted_batch_first:
  "Benchmark_run scripted bench_a (start [1 / 5, 1 / 5, 1 / 5, 1 / 5, 1 / 5, 1 / 5, 1 / 5, 1 / 5])
   = (Inr [''loops'' \<mapsto> PyInt 1, ''repeat'' \<mapsto> PyInt 3, ''timing'' \<mapsto> PyFloat 200,
           ''units'' \<mapsto> PyStr ''ms'', ''success'' \<mapsto> PyBool True],
      \<lparr>env = \<lparr>clock = [1 / 5, 1 / 5, 1 / 5, 1 / 5], executed = [''x = 1'', '''']\<rparr>,
       trace = [SetupExec None, InnerCompiled None, Timeit 1 (Inr (1 / 5)), Timeit 1 (Inr (1 / 5)),
                Timeit 1 (Inr (1 / 5)), Timeit 1 (Inr (1 / 5)), CleanupExec None]\<rparr>)"
  by (simp add: Benchmark_run_def Benchmark_setup_def Benchmark_cleanup_def bench_a_def
      Benchmark_init_def magic_timeit_def Timer_compile_def Timer_timeit_def py_range_1_10
      Timer_repeat_def eval_nat_numeral best_of_def timing_result_order unit_order_force
      scaling_def units_def scripted_def raises_def start_def)

lemma scripted_batch_second_setup:
  "Benchmark_setup scripted (bench ''x = 2'' ''1/0'' '''')
     \<lparr>env = \<lparr>clock = [1 / 5, 1 / 5, 1 / 5, 1 / 5], executed = [''x = 1'', '''']\<rparr>,
      trace = [SetupExec None, InnerCompiled None, Timeit 1 (Inr (1 / 5)), Timeit 1 (Inr (1 / 5)),
               Timeit 1 (Inr (1 / 5)), Timeit 1 (Inr (1 / 5)), CleanupExec None]\<rparr>
   = (None,
      \<lparr>env = \<lparr>clock = [1 / 5, 1 / 5, 1 / 5, 1 / 5], executed = [''x = 2'']\<rparr>,
       trace = [SetupExec None, InnerCompiled None, Timeit 1 (Inr (1 / 5)), Timeit 1 (Inr (1 / 5)),
                Timeit 1 (Inr (1 / 5)), Timeit 1 (Inr (1 / 5)), CleanupExec None,
                SetupExec None]\<rparr>)"
  by (simp add: Benchmark_setup_def bench_def Benchmark_init_def scripted_def raises_def)

lemma scripted_batch_second_timing:
  "magic_timeit scripted
     \<lparr>env = \<lparr>clock = [1 / 5, 1 / 5, 1 / 5, 1 / 5], executed = [''x = 2'']\<rparr>,
      trace = [SetupExec None, InnerCompiled None, Timeit 1 (Inr (1 / 5)), Timeit 1 (Inr (1 / 5)),
               Timeit 1 (Inr (1 / 5)), Timeit 1 (Inr (1 / 5)), CleanupExec None,
               SetupExec None]\<rparr>
     (code (bench ''x = 2'' ''1/0'' '''')) (ncalls (bench ''x = 2'' ''1/0'' ''''))
     (Some (repeat (bench ''x = 2'' ''1/0'' ''''))) (Some True)
   = (Inl ZeroDivisionError,
      \<lparr>env = \<lparr>clock = [1 / 5, 1 / 5, 1 / 5, 1 / 5], executed = [''x = 2'']\<rparr>,
       trace = [SetupExec None, InnerCompiled None, Timeit 1 (Inr (1 / 5)), Timeit 1 (Inr (1 / 5)),
                Timeit 1 (Inr (1 / 5)), Timeit 1 (Inr (1 / 5)), CleanupExec None,
                SetupExec None, InnerCompiled None, Timeit 1 (Inl ZeroDivisionError)]\<rparr>)"
  by (simp add: bench_def Benchmark_init_def magic_timeit_def Timer_compile_def Timer_timeit_def
      py_range_1_10 scripted_def raises_def)

lemma scripted_batch_second_cleanup:
  "Benchmark_cleanup scripted (bench ''x = 2'' ''1/0'' '''')
     \<lparr>env = \<lparr>clock = [1 / 5, 1 / 5, 1 / 5, 1 / 5], executed = [''x = 2'']\<rparr>,
      trace = [SetupExec None, InnerCompiled None, Timeit 1 (Inr (1 / 5)), Timeit 1 (Inr (1 / 5)),
               Timeit 1 (Inr (1 / 5)), Timeit 1 (Inr (1 / 5)), CleanupExec None,
               SetupExec None, InnerCompiled None, Timeit 1 (Inl ZeroDivisionError)]\<rparr>
   = (None,
      \<lparr>env = \<lparr>clock = [1 / 5, 1 / 5, 1 / 5, 1 / 5], executed = [''x = 2'', '''']\<rparr>,
       trace = [SetupExec None, InnerCompiled None, Timeit 1 (Inr (1 / 5)), Timeit 1 (Inr (1 / 5)),
                Timeit 1 (Inr (1 / 5)), Timeit 1 (Inr (1 / 5)), CleanupExec None,
                SetupExec None, InnerCompiled None, Timeit 1 (Inl ZeroDivisionError),
                CleanupExec None]\<rparr>)"
  by (simp add: Benchmark_cleanup_def bench_def Benchmark_init_def scripted_def raises_def)

lemma scripted_batch_third:
  "Benchmark_run scripted bench_c
     \<lparr>env = \<lparr>clock = [1 / 5, 1 / 5, 1 / 5, 1 / 5], executed = [''x = 2'', '''']\<rparr>,
      trace = [SetupExec None, InnerCompiled None, Timeit 1 (Inr (1 / 5)), Timeit 1 (Inr (1 / 5)),
               Timeit 1 (Inr (1 / 5)), Timeit 1 (Inr (1 / 5)), CleanupExec None,
               SetupExec None, InnerCompiled None, Timeit 1 (Inl ZeroDivisionError),
               CleanupExec None]\<rparr>
   = (Inr [''loops'' \<mapsto> PyInt 1, ''repeat'' \<mapsto> PyInt 3, ''timing'' \<mapsto> PyFloat 200,
           ''units'' \<mapsto> PyStr ''ms'', ''success'' \<mapsto> PyBool True],
      \<lparr>env = \<lparr>clock = [], executed = [''x = 3'', '''']\<rparr>,
       trace = [SetupExec None, InnerCompiled None, Timeit 1 (Inr (1 / 5)), Timeit 1 (Inr (1 / 5)),
                Timeit 1 (Inr (1 / 5)), Timeit 1 (Inr (1 / 5)), CleanupExec None,
                SetupExec None, InnerCompiled None, Timeit 1 (Inl ZeroDivisionError),
                CleanupExec None,
                SetupExec None, InnerCompiled None, Timeit 1 (Inr (1 / 5)), Timeit 1 (Inr (1 / 5)),
                Timeit 1 (Inr (1 / 5)), Timeit 1 (Inr (1 / 5)), CleanupExec None]\<rparr>)"
  by (simp add: Benchmark_run_def Benchmark_setup_def Benchmark_cleanup_def bench_c_def
      Benchmark_init_def magic_timeit_def Timer_compile_def Timer_timeit_def py_range_1_10
      Timer_repeat_def eval_nat_numeral best_of_def timing_result_order unit_order_force
      scaling_def units_def scripted_def raises_def)

theorem timing_failure_is_a_result_witness:
  "Benchmark_run scripted (bench ''x = 2'' ''1/0'' '''')
     \<lparr>env = \<lparr>clock = [1 / 5, 1 / 5, 1 / 5, 1 / 5], executed = [''x = 1'', '''']\<rparr>,
      trace = [SetupExec None, InnerCompiled None, Timeit 1 (Inr (1 / 5)), Timeit 1 (Inr (1 / 5)),
               Timeit 1 (Inr (1 / 5)), Timeit 1 (Inr (1 / 5)), CleanupExec None]\<rparr>
   = (Inr [''success'' \<mapsto> PyBool False,
           ''traceback'' \<mapsto> PyStr (print_exc scripted ZeroDivisionError)],
      \<lparr>env = \<lparr>clock = [1 / 5, 1 / 5, 1 / 5, 1 / 5], executed = [''x = 2'', '''']\<rparr>,
       trace = [SetupExec None, InnerCompiled None, Timeit 1 (Inr (1 / 5)), Timeit 1 (Inr (1 / 5)),
                Timeit 1 (Inr (1 / 5)), Timeit 1 (Inr (1 / 5)), CleanupExec None,
                SetupExec None, InnerCompiled None, Timeit 1 (Inl ZeroDivisionError),
                CleanupExec None]\<rparr>)
   \<and> print_exc scripted ZeroDivisionError \<noteq> []
   \<and> dom [''success'' \<mapsto> PyBool False,
          ''traceback'' \<mapsto> PyStr (print_exc scripted ZeroDivisionError)]
      = {''success'', ''traceback''}"
  using timing_failure_is_a_result
    [OF scripted_batch_second_setup scripted_batch_second_timing scripted_batch_second_cleanup]
  by blast

text \<open>
  The run of a benchmark whose timed code raises and whose cleanup raises as well returns
  no result: it raises the exception of the cleanup, and the dictionary built for the
  failure of the code is lost.
\<close>

theorem cleanup_failure_hides_result:
  "Benchmark_run scripted (bench ''x = 1'' ''1/0'' ''raise KeyError'') (start [])
   = (Inl (Raised ''KeyError''),
      \<lparr>env = \<lparr>clock = [], executed = [''x = 1'']\<rparr>,
       trace = [SetupExec None, InnerCompiled None, Timeit 1 (Inl ZeroDivisionError),
                CleanupExec (Some (Raised ''KeyError''))]\<rparr>)"
  by (simp add: Benchmark_run_def Benchmark_setup_def Benchmark_cleanup_def bench_def
      Benchmark_init_def magic_timeit_def Timer_compile_def Timer_timeit_def py_range_1_10
      scripted_def raises_def start_def)

section \<open>Failures of the setup\<close>

text \<open>
  Claim C8. When executing the setup text raises \<open>e\<close>, the run raises \<open>e\<close> and returns no
  result; the world it leaves is the one the failed setup left, whose log has grown by the
  event of the setup alone: neither the timed code nor the cleanup text was executed.
\<close>

theorem setup_failure_propagates:
  assumes "Benchmark_setup I b w = (Some e, w1)"
  shows "Benchmark_run I b w = (Inl e, w1)
     \<and> trace w1 = trace w @ [SetupExec (Some e)]
     \<and> exec_in I (setup_text b) (globals_copy I (env w)) = (Some e, env w1)"
  using run_setup_raises [OF assms] Benchmark_setup_trace [OF assms] by simp

lemma scripted_bad_setup:
  "Benchmark_setup scripted (bench ''1/0'' ''f(x)'' ''flag = True'') (start [])
   = (Some ZeroDivisionError,
      \<lparr>env = \<lparr>clock = [], executed = []\<rparr>, trace = [SetupExec (Some ZeroDivisionError)]\<rparr>)"
  by (simp add: Benchmark_setup_def bench_def Benchmark_init_def scripted_def raises_def start_def)

theorem setup_failure_propagates_witness:
  "Benchmark_run scripted (bench ''1/0'' ''f(x)'' ''flag = True'') (start [])
     = (Inl ZeroDivisionError,
        \<lparr>env = \<lparr>clock = [], executed = []\<rparr>, trace = [SetupExec (Some ZeroDivisionError)]\<rparr>)
   \<and> trace \<lparr>env = \<lparr>clock = [], executed = []\<rparr>, trace = [SetupExec (Some ZeroDivisionError)]\<rparr>
     = trace (start []) @ [SetupExec (Some ZeroDivisionError)]
   \<and> exec_in scripted (setup_text (bench ''1/0'' ''f(x)'' ''flag = True''))
        (globals_copy scripted (env (start [])))
     = (Some ZeroDivisionError,
        env \<lparr>env = \<lparr>clock = [], executed = []\<rparr>, trace = [SetupExec (Some ZeroDivisionError)]\<rparr>)"
  by (rule setup_failure_propagates [OF scripted_bad_setup])

section \<open>The unit of a run\<close>

text \<open>
  Claim C10. Every result a run returns with \<open>success\<close> true has the unit \<open>ms\<close>, whatever
  the benchmark and the times measured: its timing is the minimum of the trials divided by
  the count, multiplied by 1000. The run calls the timer with \<open>force_ms\<close>, so the choice of
  a unit by magnitude is never reached from it.
\<close>

theorem run_reports_milliseconds:
  assumes "Benchmark_run I b w = (Inr res, w')"
    and "res ''success'' = Some (PyBool True)"
  shows "res ''units'' = Some (PyStr ''ms'')
     \<and> (\<exists>number ts. ts \<noteq> [] \<and> number \<noteq> 0
          \<and> res ''loops'' = Some (PyInt number)
          \<and> res ''timing'' = Some (PyFloat (Min (set ts) / real_of_int number * 1000)))"
proof -
  obtain s w1 where su: "Benchmark_setup I b w = (s, w1)"
    by (cases "Benchmark_setup I b w")
  have sN: "s = None"
  proof (cases s)
    case (Some e)
    with su assms(1) run_setup_raises [of I b w e w1] show ?thesis by simp
  qed simp
  obtain r w2 where t: "magic_timeit I w1 (code b) (ncalls b) (Some (repeat b)) (Some True) = (r, w2)"
    by (cases "magic_timeit I w1 (code b) (ncalls b) (Some (repeat b)) (Some True)")
  obtain c w3 where cl: "Benchmark_cleanup I b w2 = (c, w3)"
    by (cases "Benchmark_cleanup I b w2")
  note run = run_after_setup [OF su [unfolded sN] t cl]
  from run assms(1) have cN: "c = None" by (cases c) simp_all
  from run assms cN obtain res0 where r: "r = Inr res0" and res: "res = res0(''success'' \<mapsto> PyBool True)"
    by (cases r) auto
  from magic_timeit_Inr [OF t [unfolded r]] obtain number ts where
    ne: "ts \<noteq> []" "number \<noteq> 0" and
    tr: "timing_result (math_log10 I) number (repeat b) True
          (Min (set ts) / real_of_int number) = Inr res0"
    by auto
  from tr have res0: "res0 = [''loops'' \<mapsto> PyInt number, ''repeat'' \<mapsto> PyInt (repeat b),
          ''timing'' \<mapsto> PyFloat (Min (set ts) / real_of_int number * 1000),
          ''units'' \<mapsto> PyStr ''ms'']"
    by (simp add: timing_result_order unit_order_force scaling_def units_def)
  have "res ''units'' = Some (PyStr ''ms'')"
    "res ''loops'' = Some (PyInt number)"
    "res ''timing'' = Some (PyFloat (Min (set ts) / real_of_int number * 1000))"
    unfolding res res0 by simp_all
  with ne show ?thesis by blast
qed

text \<open>A benchmark that takes 2000 seconds per iteration is reported in milliseconds too.\<close>

lemma scripted_slow_run:
  "Benchmark_run scripted bench_b (start [2000, 2500, 3000, 2000])
   = (Inr [''loops'' \<mapsto> PyInt 1, ''repeat'' \<mapsto> PyInt 3, ''timing'' \<mapsto> PyFloat 2000000,
           ''units'' \<mapsto> PyStr ''ms'', ''success'' \<mapsto> PyBool True],
      \<lparr>env = \<lparr>clock = [], executed = [''x = 2'', '''']\<rparr>,
       trace = [SetupExec None, InnerCompiled None, Timeit 1 (Inr 2000), Timeit 1 (Inr 2500),
                Timeit 1 (Inr 3000), Timeit 1 (Inr 2000), CleanupExec None]\<rparr>)"
  by (simp add: Benchmark_run_def Benchmark_setup_def Benchmark_cleanup_def bench_b_def
      Benchmark_init_def magic_timeit_def Timer_compile_def Timer_timeit_def py_range_1_10
      Timer_repeat_def eval_nat_numeral best_of_def timing_result_order unit_order_force
      scaling_def units_def scripted_def raises_def start_def)

theorem run_reports_milliseconds_witness:
  "[''loops'' \<mapsto> PyInt 1, ''repeat'' \<mapsto> PyInt 3, ''timing'' \<mapsto> PyFloat 2000000,
    ''units'' \<mapsto> PyStr ''ms'', ''success'' \<mapsto> PyBool True] ''success'' = Some (PyBool True)
   \<and> [''loops'' \<mapsto> PyInt 1, ''repeat'' \<mapsto> PyInt 3, ''timing'' \<mapsto> PyFloat 2000000,
      ''units'' \<mapsto> PyStr ''ms'', ''success'' \<mapsto> PyBool True] ''units'' = Some (PyStr ''ms'')
   \<and> (\<exists>number ts. ts \<noteq> [] \<and> number \<noteq> 0
        \<and> [''loops'' \<mapsto> PyInt 1, ''repeat'' \<mapsto> PyInt 3, ''timing'' \<mapsto> PyFloat 2000000,
            ''units'' \<mapsto> PyStr ''ms'', ''success'' \<mapsto> PyBool True] ''loops''
            = Some (PyInt number)
        \<and> [''loops'' \<mapsto> PyInt 1, ''repeat'' \<mapsto> PyInt 3, ''timing'' \<mapsto> PyFloat 2000000,
            ''units'' \<mapsto> PyStr ''ms'', ''success'' \<mapsto> PyBool True] ''timing''
            = Some (PyFloat (Min (set ts) / real_of_int number * 1000)))"
proof -
  have s: "[''loops'' \<mapsto> PyInt 1, ''repeat'' \<mapsto> PyInt 3, ''timing'' \<mapsto> PyFloat 2000000,
    ''units'' \<mapsto> PyStr ''ms'', ''success'' \<mapsto> PyBool True] ''success'' = Some (PyBool True)"
    by simp
  show ?thesis
    by (rule conjI [OF s run_reports_milliseconds [OF scripted_slow_run s]])
qed

section \<open>Counts that cannot be measured\<close>

text \<open>
  Claim C9, as amended. The timer does not check its arguments. Once the statement has
  compiled: with the explicit count 0 and a repeat of at least 1, all the trials are run
  (of no iteration each) and the division of their minimum by the count then raises
  \<^verbatim>\<open>ZeroDivisionError\<close>; with a repeat below 1 no trial is run and the minimum of the empty
  list raises \<^verbatim>\<open>ValueError\<close>, for an explicit count at once and without one after the
  calibration has been timed. No result is returned in either case.
\<close>

theorem invalid_counts_fail_late:
  assumes "Timer_compile I stmt w = (None, w1)"
  shows "(\<forall>ts w2. 1 \<le> r0 \<and> Timer_repeat I stmt r0 0 w1 = (Inr ts, w2) \<longrightarrow>
            magic_timeit I w stmt (Some 0) (Some r0) fm = (Inl ZeroDivisionError, w2)
            \<and> length ts = nat r0
            \<and> trace w2 = trace w @ [InnerCompiled None] @ trial_events 0 ts)
       \<and> (r0 < 1 \<longrightarrow> magic_timeit I w stmt (Some n) (Some r0) fm = (Inl ValueError, w1))
       \<and> (\<forall>number w2. r0 < 1 \<and> calibrate I stmt (py_range 1 10) 1 w1 = (Inr number, w2) \<longrightarrow>
            magic_timeit I w stmt None (Some r0) fm = (Inl ValueError, w2))"
proof (intro conjI allI impI)
  fix ts w2
  assume a: "1 \<le> r0 \<and> Timer_repeat I stmt r0 0 w1 = (Inr ts, w2)"
  then have "repeat_loop I stmt (nat r0) 0 [] w1 = (Inr ts, w2)"
    by (simp add: Timer_repeat_def)
  from repeat_loop_Inr [OF this] have
    len: "length ts = nat r0" and tr: "trace w2 = trace w1 @ trial_events 0 ts"
    by auto
  from len a have "ts \<noteq> []" by auto
  then have "best_of ts 0 = Inl ZeroDivisionError"
    by (cases ts) (simp_all add: best_of_def)
  with a assms show "magic_timeit I w stmt (Some 0) (Some r0) fm = (Inl ZeroDivisionError, w2)"
    by (simp add: magic_timeit_def)
  show "length ts = nat r0" by (rule len)
  show "trace w2 = trace w @ [InnerCompiled None] @ trial_events 0 ts"
    using tr Timer_compile_trace [OF assms] by simp
next
  assume "r0 < 1"
  then have "Timer_repeat I stmt r0 n w1 = (Inr [], w1)"
    by (simp add: Timer_repeat_def)
  with assms show "magic_timeit I w stmt (Some n) (Some r0) fm = (Inl ValueError, w1)"
    by (simp add: magic_timeit_def best_of_def)
next
  fix number w2
  assume a: "r0 < 1 \<and> calibrate I stmt (py_range 1 10) 1 w1 = (Inr number, w2)"
  then have "Timer_repeat I stmt r0 number w2 = (Inr [], w2)"
    by (simp add: Timer_repeat_def)
  with a assms show "magic_timeit I w stmt None (Some r0) fm = (Inl ValueError, w2)"
    by (simp add: magic_timeit_def best_of_def)
qed

lemma scripted_compile:
  "Timer_compile scripted ''pass'' (start ts)
   = (None, \<lparr>env = \<lparr>clock = ts, executed = []\<rparr>, trace = [InnerCompiled None]\<rparr>)"
  by (simp add: Timer_compile_def scripted_def start_def)

lemma scripted_three_empty_trials:
  "Timer_repeat scripted ''pass'' 3 0
     \<lparr>env = \<lparr>clock = [1 / 100, 1 / 50, 3 / 100], executed = []\<rparr>, trace = [InnerCompiled None]\<rparr>
   = (Inr [1 / 100, 1 / 50, 3 / 100],
      \<lparr>env = \<lparr>clock = [], executed = []\<rparr>,
       trace = [InnerCompiled None, Timeit 0 (Inr (1 / 100)), Timeit 0 (Inr (1 / 50)),
                Timeit 0 (Inr (3 / 100))]\<rparr>)"
  by (simp add: Timer_repeat_def Timer_timeit_def eval_nat_numeral scripted_def raises_def)

lemma scripted_one_attempt:
  "calibrate scripted ''pass'' (py_range 1 10) 1
     \<lparr>env = \<lparr>clock = [1 / 5], executed = []\<rparr>, trace = [InnerCompiled None]\<rparr>
   = (Inr 1,
      \<lparr>env = \<lparr>clock = [], executed = []\<rparr>, trace = [InnerCompiled None, Timeit 1 (Inr (1 / 5))]\<rparr>)"
  by (simp add: py_range_1_10 Timer_timeit_def scripted_def raises_def)

theorem invalid_counts_fail_late_witness:
  "magic_timeit scripted (start [1 / 100, 1 / 50, 3 / 100]) ''pass'' (Some 0) (Some 3) None
     = (Inl ZeroDivisionError,
        \<lparr>env = \<lparr>clock = [], executed = []\<rparr>,
         trace = [InnerCompiled None, Timeit 0 (Inr (1 / 100)), Timeit 0 (Inr (1 / 50)),
                  Timeit 0 (Inr (3 / 100))]\<rparr>)
   \<and> magic_timeit scripted (start [1 / 5]) ''pass'' (Some 5) (Some 0) None
     = (Inl ValueError,
        \<lparr>env = \<lparr>clock = [1 / 5], executed = []\<rparr>, trace = [InnerCompiled None]\<rparr>)
   \<and> magic_timeit scripted (start [1 / 5]) ''pass'' None (Some 0) None
     = (Inl ValueError,
        \<lparr>env = \<lparr>clock = [], executed = []\<rparr>,
         trace = [InnerCompiled None, Timeit 1 (Inr (1 / 5))]\<rparr>)"
proof -
  note a = invalid_counts_fail_late [OF scripted_compile, of 3 "[1 / 100, 1 / 50, 3 / 100]"]
  note b = invalid_counts_fail_late [OF scripted_compile, of 0 "[1 / 5]"]
  have 1: "magic_timeit scripted (start [1 / 100, 1 / 50, 3 / 100]) ''pass'' (Some 0) (Some 3) None
     = (Inl ZeroDivisionError,
        \<lparr>env = \<lparr>clock = [], executed = []\<rparr>,
         trace = [InnerCompiled None, Timeit 0 (Inr (1 / 100)), Timeit 0 (Inr (1 / 50)),
                  Timeit 0 (Inr (3 / 100))]\<rparr>)"
    using a scripted_three_empty_trials by simp
  have 2: "magic_timeit scripted (start [1 / 5]) ''pass'' (Some 5) (Some 0) None
     = (Inl ValueError,
        \<lparr>env = \<lparr>clock = [1 / 5], executed = []\<rparr>, trace = [InnerCompiled None]\<rparr>)"
    using b by simp
  have 3: "magic_timeit scripted (start [1 / 5]) ''pass'' None (Some 0) None
     = (Inl ValueError,
        \<lparr>env = \<lparr>clock = [], executed = []\<rparr>,
         trace = [InnerCompiled None, Timeit 1 (Inr (1 / 5))]\<rparr>)"
    using b scripted_one_attempt by simp
  from 1 2 3 show ?thesis by simp
qed

text \<open>
  The count 0 is not refused before anything runs: three trials are timed and the
  failure is the division by zero itself. A repeat of 0 is not refused either: the
  calibration is timed first.
\<close>

theorem zero_count_divides_by_zero:
  "magic_timeit scripted (start [1 / 100, 1 / 50, 3 / 100]) ''pass'' (Some 0) None None
     = (Inl ZeroDivisionError,
        \<lparr>env = \<lparr>clock = [], executed = []\<rparr>,
         trace = [InnerCompiled None, Timeit 0 (Inr (1 / 100)), Timeit 0 (Inr (1 / 50)),
                  Timeit 0 (Inr (3 / 100))]\<rparr>)
   \<and> magic_timeit scripted (start [1 / 5]) ''pass'' None (Some 0) None
     = (Inl ValueError,
        \<lparr>env = \<lparr>clock = [], executed = []\<rparr>,
         trace = [InnerCompiled None, Timeit 1 (Inr (1 / 5))]\<rparr>)"
  by (simp add: magic_timeit_def Timer_compile_def Timer_timeit_def py_range_1_10
      Timer_repeat_def eval_nat_numeral best_of_def scripted_def raises_def start_def)

end
